theory Spec2Isabelle
  imports Complex_Main
begin

section \<open>The profiler integration: a shallow embedding\<close>

text \<open>
  The module \<^verbatim>\<open>homeassistant/components/profiler/__init__.py\<close> registers eight
  administrative actions. Each handler is embedded as a function on an explicit state;
  a handler that can raise returns the exception next to the state it leaves behind,
  because Python keeps every mutation made before the \<^verbatim>\<open>raise\<close>.
\<close>

subsection \<open>Python values and exceptions\<close>

text \<open>
  A Python \<^verbatim>\<open>float\<close> is a finite real number, an infinity or a NaN. Only the value
  a float denotes is modelled; no floating-point arithmetic is performed on it here.
  \<open>VOther\<close> is an object of another type, one that has no conversion to a float: a
  list, a dictionary, a \<^verbatim>\<open>timedelta\<close>.
\<close>

datatype pyfloat = Finite real | PosInf | NegInf | NaN

datatype pyval =
    VNone
  | VBool bool
  | VInt int
  | VFloat pyfloat
  | VStr string
  | VOther

text \<open>
  The exceptions the handlers can meet. \<open>Invalid\<close> is the schema library's
  validation error. \<open>OtherException\<close> stands for any other class
  derived from \<^verbatim>\<open>Exception\<close>; \<open>BaseExceptionOnly\<close> for a class derived from
  \<^verbatim>\<open>BaseException\<close> but not from \<^verbatim>\<open>Exception\<close> (\<^verbatim>\<open>KeyboardInterrupt\<close>,
  \<^verbatim>\<open>SystemExit\<close>, \<^verbatim>\<open>GeneratorExit\<close>, \<^verbatim>\<open>asyncio.CancelledError\<close>).
\<close>

datatype exn =
    HomeAssistantError string
  | Invalid
  | ServiceNotFound string
  | KeyError string
  | ValueError
  | TypeError
  | OverflowError
  | ImportError string
  | AttributeError string
  | OSError string
  | OtherException string
  | BaseExceptionOnly string

fun isinstance_Exception :: "exn \<Rightarrow> bool" where
  "isinstance_Exception (BaseExceptionOnly _) = False"
| "isinstance_Exception _ = True"

type_synonym call_data = "string \<rightharpoonup> pyval"

subsection \<open>Constants of the module\<close>

definition SERVICE_START :: string where "SERVICE_START = ''start''"
definition SERVICE_MEMORY :: string where "SERVICE_MEMORY = ''memory''"
definition SERVICE_START_LOG_OBJECTS :: string where
  "SERVICE_START_LOG_OBJECTS = ''start_log_objects''"
definition SERVICE_STOP_LOG_OBJECTS :: string where
  "SERVICE_STOP_LOG_OBJECTS = ''stop_log_objects''"
definition SERVICE_DUMP_LOG_OBJECTS :: string where
  "SERVICE_DUMP_LOG_OBJECTS = ''dump_log_objects''"
definition SERVICE_LRU_STATS :: string where "SERVICE_LRU_STATS = ''lru_stats''"
definition SERVICE_LOG_THREAD_FRAMES :: string where
  "SERVICE_LOG_THREAD_FRAMES = ''log_thread_frames''"
definition SERVICE_LOG_EVENT_LOOP_SCHEDULED :: string where
  "SERVICE_LOG_EVENT_LOOP_SCHEDULED = ''log_event_loop_scheduled''"

definition SERVICES :: "string list" where
  "SERVICES =
     [SERVICE_START, SERVICE_MEMORY, SERVICE_START_LOG_OBJECTS, SERVICE_STOP_LOG_OBJECTS,
      SERVICE_DUMP_LOG_OBJECTS, SERVICE_LRU_STATS, SERVICE_LOG_THREAD_FRAMES,
      SERVICE_LOG_EVENT_LOOP_SCHEDULED]"

definition CONF_SECONDS :: string where "CONF_SECONDS = ''seconds''"

text \<open>
  \<^verbatim>\<open>DOMAIN\<close> is imported from the component's constants module, which is not part
  of the sources at hand; it is the name of the component's directory. It only occurs
  here in the payload of a \<^verbatim>\<open>KeyError\<close>.
\<close>

definition DOMAIN :: string where "DOMAIN = ''profiler''"

definition LOG_INTERVAL_SUB :: string where
  "LOG_INTERVAL_SUB = ''log_interval_subscription''"

text \<open>
  Modelled from the spec: the keys \<^verbatim>\<open>CONF_SCAN_INTERVAL\<close> and \<^verbatim>\<open>CONF_TYPE\<close> are
  imported from the host's constants module, which is not part of the sources at hand;
  the table of administrative actions names the parameters \<^verbatim>\<open>scan_interval\<close> and
  \<^verbatim>\<open>type\<close>.
\<close>

definition CONF_SCAN_INTERVAL :: string where "CONF_SCAN_INTERVAL = ''scan_interval''"
definition CONF_TYPE :: string where "CONF_TYPE = ''type''"

subsection \<open>The state the handlers work on\<close>

text \<open>
  \<open>domain_data\<close> is the dictionary object created by \<^verbatim>\<open>async_setup_entry\<close>; the
  handlers reach it through their closure, the host through \<^verbatim>\<open>hass.data[DOMAIN]\<close>
  for as long as \<open>has_domain_data\<close> holds (one object, two references). A subscription
  returned by \<^verbatim>\<open>async_track_time_interval\<close> is a cancel callback; it is modelled by
  a handle, and \<open>listeners\<close> maps the handle of every interval subscription of this
  integration that has not been cancelled to its interval. Calling a cancel callback
  removes its handle, and calling it again changes nothing.
\<close>

type_synonym growth_row = "string \<times> int \<times> int"

datatype log_record =
    MemoryGrowth "growth_row list"
  | ObjectsInMemory string "string list"
  | Scheduled nat int int

text \<open>
  The calls into the profiling libraries and the event loop's sleep, in the order they
  are made. \<open>DumpStats\<close>, \<open>Convert\<close> and \<open>HeapDump\<close> each write the file named.
\<close>

datatype event =
    ProfilerEnable
  | ProfilerDisable
  | Sleep pyfloat
  | DumpStats string
  | Convert string
  | HpyCreate
  | HpySetref
  | HpyHeap
  | HeapDump string

record notification =
  title :: string
  message :: string

record hass =
  config_dir :: string
  has_domain_data :: bool
  domain_data :: "string \<rightharpoonup> nat"
  listeners :: "nat \<rightharpoonup> pyval"
  next_handle :: nat
  notifications :: "string \<rightharpoonup> notification"
  services :: "string set"
  logged :: "log_record list"
  trace :: "event list"

definition cancel_listener :: "nat \<Rightarrow> hass \<Rightarrow> hass" where
  "cancel_listener h s = s\<lparr>listeners := (listeners s)(h := None)\<rparr>"

definition async_track_time_interval :: "pyval \<Rightarrow> hass \<Rightarrow> nat \<times> hass" where
  "async_track_time_interval interval s =
     (next_handle s,
      s\<lparr>listeners := (listeners s)(next_handle s \<mapsto> interval),
        next_handle := Suc (next_handle s)\<rparr>)"

definition notification_create :: "string \<Rightarrow> string \<Rightarrow> string \<Rightarrow> hass \<Rightarrow> hass" where
  "notification_create msg ttl nid s =
     s\<lparr>notifications := (notifications s)(nid \<mapsto> \<lparr>title = ttl, message = msg\<rparr>)\<rparr>"

definition notification_dismiss :: "string \<Rightarrow> hass \<Rightarrow> hass" where
  "notification_dismiss nid s = s\<lparr>notifications := (notifications s)(nid := None)\<rparr>"

subsection \<open>Object-growth logging: start, stop, unload\<close>

text \<open>
  \<^verbatim>\<open>_log_objects\<close> logs what \<^verbatim>\<open>objgraph.growth(limit=1000)\<close> returns; the call into
  the library is the argument \<open>growth\<close>, an exception or the rows it returned.
\<close>

definition log_objects :: "exn + growth_row list \<Rightarrow> hass \<Rightarrow> exn option \<times> hass" where
  "log_objects growth s =
     (case growth of
        Inl e \<Rightarrow> (Some e, s)
      | Inr rows \<Rightarrow> (None, s\<lparr>logged := logged s @ [MemoryGrowth rows]\<rparr>))"

text \<open>
  The start handler up to its \<^verbatim>\<open>await\<close>: the stored subscription, if any, is called
  (cancelled) and stays in the dictionary; the notification is created.
\<close>

definition start_log_objects_begin :: "hass \<Rightarrow> hass" where
  "start_log_objects_begin s =
     notification_create
       ''Object growth logging has started. See [the logs](/config/logs) to track the growth of new objects.''
       ''Object growth logging started''
       ''profile_object_logging''
       (case domain_data s LOG_INTERVAL_SUB of
          None \<Rightarrow> s
        | Some h \<Rightarrow> cancel_listener h s)"

text \<open>
  The rest of the start handler: the first sample runs in the executor and may raise;
  then \<^verbatim>\<open>call.data[CONF_SCAN_INTERVAL]\<close> is read, the periodic sampler is installed
  and its cancel callback stored.
\<close>

definition start_log_objects_finish ::
    "call_data \<Rightarrow> exn + growth_row list \<Rightarrow> hass \<Rightarrow> exn option \<times> hass" where
  "start_log_objects_finish data growth s =
     (case log_objects growth s of
        (Some e, s1) \<Rightarrow> (Some e, s1)
      | (None, s1) \<Rightarrow>
          (case data CONF_SCAN_INTERVAL of
             None \<Rightarrow> (Some (KeyError CONF_SCAN_INTERVAL), s1)
           | Some interval \<Rightarrow>
               (case async_track_time_interval interval s1 of
                  (h, s2) \<Rightarrow>
                    (None, s2\<lparr>domain_data := (domain_data s2)(LOG_INTERVAL_SUB \<mapsto> h)\<rparr>))))"

definition async_start_log_objects ::
    "call_data \<Rightarrow> exn + growth_row list \<Rightarrow> hass \<Rightarrow> exn option \<times> hass" where
  "async_start_log_objects data growth s =
     start_log_objects_finish data growth (start_log_objects_begin s)"

definition async_stop_log_objects :: "hass \<Rightarrow> exn option \<times> hass" where
  "async_stop_log_objects s =
     (case domain_data s LOG_INTERVAL_SUB of
        None \<Rightarrow> (None, s)
      | Some h \<Rightarrow>
          (None,
           cancel_listener h
             ((notification_dismiss ''profile_object_logging'' s)
                \<lparr>domain_data := (domain_data s)(LOG_INTERVAL_SUB := None)\<rparr>)))"

text \<open>
  \<^verbatim>\<open>async_unload_entry\<close> removes the eight actions, reads \<^verbatim>\<open>hass.data[DOMAIN]\<close>
  (a \<^verbatim>\<open>KeyError\<close> when the entry was never set up), calls the stored subscription and
  pops the dictionary from \<^verbatim>\<open>hass.data\<close>.
\<close>

definition async_unload_entry :: "hass \<Rightarrow> exn option \<times> hass" where
  "async_unload_entry s =
     (let s1 = s\<lparr>services := services s - set SERVICES\<rparr> in
      if \<not> has_domain_data s1 then (Some (KeyError DOMAIN), s1)
      else
        (let s2 = (case domain_data s1 LOG_INTERVAL_SUB of
                     None \<Rightarrow> s1
                   | Some h \<Rightarrow> cancel_listener h s1)
         in (None, s2\<lparr>has_domain_data := False\<rparr>)))"

text \<open>
  \<^verbatim>\<open>async_setup_entry\<close> binds a fresh empty dictionary to \<^verbatim>\<open>hass.data[DOMAIN]\<close>
  and registers the actions.
\<close>

definition async_setup_entry :: "hass \<Rightarrow> hass" where
  "async_setup_entry s =
     s\<lparr>has_domain_data := True, domain_data := Map.empty,
       services := services s \<union> set SERVICES\<rparr>"

text \<open>
  The host before the integration is set up: no interval subscription of this
  integration exists.
\<close>

definition fresh_hass :: "string \<Rightarrow> hass" where
  "fresh_hass dir =
     \<lparr>config_dir = dir, has_domain_data = False, domain_data = Map.empty,
      listeners = Map.empty, next_handle = 0, notifications = Map.empty,
      services = {}, logged = [], trace = []\<rparr>"

text \<open>
  The handlers on the event loop. The start handler is suspended at
  \<^verbatim>\<open>await hass.async_add_executor_job(_log_objects)\<close>, between calling the stored
  subscription and storing the new one, and while it is suspended the loop runs other
  handlers, another start handler among them. \<open>suspended\<close> holds the call data of the
  start handlers that are waiting there. An execution is a sequence of events: a call
  of an action, which runs its handler up to its first suspension or to its end, or
  the resumption of a suspended start handler with the outcome of its sample. An
  action that is not registered is refused by the host before any handler runs.
\<close>

record log_system =
  lhost :: hass
  suspended :: "call_data list"

datatype log_event =
    CallStart call_data
  | ResumeStart nat "exn + growth_row list"
  | CallStop
  | CallUnload

fun log_step :: "log_event \<Rightarrow> log_system \<Rightarrow> log_system" where
  "log_step (CallStart data) sys =
     (if SERVICE_START_LOG_OBJECTS \<in> services (lhost sys)
      then sys\<lparr>lhost := start_log_objects_begin (lhost sys),
               suspended := suspended sys @ [data]\<rparr>
      else sys)"
| "log_step (ResumeStart i growth) sys =
     (if i < length (suspended sys)
      then sys\<lparr>lhost := snd (start_log_objects_finish (suspended sys ! i) growth (lhost sys)),
               suspended := take i (suspended sys) @ drop (Suc i) (suspended sys)\<rparr>
      else sys)"
| "log_step CallStop sys =
     (if SERVICE_STOP_LOG_OBJECTS \<in> services (lhost sys)
      then sys\<lparr>lhost := snd (async_stop_log_objects (lhost sys))\<rparr>
      else sys)"
| "log_step CallUnload sys = sys\<lparr>lhost := snd (async_unload_entry (lhost sys))\<rparr>"

fun log_run :: "log_event list \<Rightarrow> log_system \<Rightarrow> log_system" where
  "log_run [] sys = sys"
| "log_run (ev # evs) sys = log_run evs (log_step ev sys)"

text \<open>The integration just set up on a fresh host, no handler running.\<close>

definition log_boot :: "string \<Rightarrow> log_system" where
  "log_boot dir = \<lparr>lhost = async_setup_entry (fresh_hass dir), suspended = []\<rparr>"

text \<open>
  Every subscription that is still active is the one stored under
  \<^verbatim>\<open>LOG_INTERVAL_SUB\<close>.
\<close>

definition active_is_stored :: "hass \<Rightarrow> bool" where
  "active_is_stored s = (dom (listeners s) \<subseteq> set_option (domain_data s LOG_INTERVAL_SUB))"

text \<open>
  An execution in which a start handler is called only when no other start handler is
  suspended.
\<close>

fun starts_apart :: "log_event list \<Rightarrow> log_system \<Rightarrow> bool" where
  "starts_apart [] sys = True"
| "starts_apart (CallStart data # evs) sys =
     (suspended sys = [] \<and> starts_apart evs (log_step (CallStart data) sys))"
| "starts_apart (ev # evs) sys = starts_apart evs (log_step ev sys)"

text \<open>
  What holds between the events of such an execution: the active subscriptions are
  stored, at most one start handler is suspended, and while one is, nothing is active.
\<close>

definition apart_inv :: "log_system \<Rightarrow> bool" where
  "apart_inv sys =
     (active_is_stored (lhost sys) \<and> length (suspended sys) \<le> 1 \<and>
      (suspended sys = [] \<or> listeners (lhost sys) = Map.empty))"

subsection \<open>Dumping the live instances of a type\<close>

text \<open>
  An object is what the dump sees of it: its type and what \<^verbatim>\<open>repr(obj)\<close> does, a
  string or an exception. How a class prints is decided by its metaclass. With the
  metaclass \<^verbatim>\<open>type\<close> (\<open>tp_printing\<close> is \<open>None\<close>) it prints as
  \<^verbatim>\<open><class 'module.qualname'>\<close>, or as \<^verbatim>\<open><class 'name'>\<close> when it lives in
  \<^verbatim>\<open>builtins\<close>; a metaclass of its own may print the class in another way or raise,
  and \<open>tp_printing\<close> is then what printing the class does.
\<close>

record pytype =
  tp_module :: string
  tp_name :: string
  tp_qualname :: string
  tp_printing :: "(exn + string) option"

record pyobject =
  ob_type :: pytype
  ob_repr :: "exn + string"

text \<open>\<^verbatim>\<open>type.__repr__\<close>, the printing of a class whose metaclass is \<^verbatim>\<open>type\<close>.\<close>

definition type_repr :: "pytype \<Rightarrow> string" where
  "type_repr t =
     (if tp_module t = ''builtins''
      then ''<class '' @ [CHR 0x27] @ tp_name t @ [CHR 0x27] @ ''>''
      else ''<class '' @ [CHR 0x27] @ tp_module t @ ''.'' @ tp_qualname t @ [CHR 0x27] @ ''>'')"

text \<open>The class as the f-string \<^verbatim>\<open>{type(obj)}\<close> formats it.\<close>

definition format_type :: "pytype \<Rightarrow> exn + string" where
  "format_type t = (case tp_printing t of None \<Rightarrow> Inr (type_repr t) | Some r \<Rightarrow> r)"

text \<open>
  \<^verbatim>\<open>_safe_repr\<close>. The placeholder is built inside the \<^verbatim>\<open>except\<close> block, so an
  exception raised while the type is formatted leaves the function.
\<close>

definition safe_repr :: "pyobject \<Rightarrow> exn + string" where
  "safe_repr obj =
     (case ob_repr obj of
        Inr r \<Rightarrow> Inr r
      | Inl e \<Rightarrow>
          if isinstance_Exception e
          then (case format_type (ob_type obj) of
                  Inl e' \<Rightarrow> Inl e'
                | Inr t \<Rightarrow> Inr (''Failed to serialize '' @ t))
          else Inl e)"

text \<open>
  The list comprehension over the instances: left to right, and an exception that
  \<^verbatim>\<open>_safe_repr\<close> lets through ends it.
\<close>

fun safe_repr_all :: "pyobject list \<Rightarrow> exn + string list" where
  "safe_repr_all [] = Inr []"
| "safe_repr_all (obj # objs) =
     (case safe_repr obj of
        Inl e \<Rightarrow> Inl e
      | Inr r \<Rightarrow>
          (case safe_repr_all objs of
             Inl e \<Rightarrow> Inl e
           | Inr rs \<Rightarrow> Inr (r # rs)))"

text \<open>
  \<^verbatim>\<open>_dump_log_objects\<close>: \<open>obj_type\<close> is \<^verbatim>\<open>call.data[CONF_TYPE]\<close>, a string by the
  action's schema, and \<open>instances\<close> is what \<^verbatim>\<open>objgraph.by_type(obj_type)\<close> returns.
\<close>

definition dump_log_objects :: "string \<Rightarrow> pyobject list \<Rightarrow> hass \<Rightarrow> exn option \<times> hass" where
  "dump_log_objects obj_type instances s =
     (case safe_repr_all instances of
        Inl e \<Rightarrow> (Some e, s)
      | Inr reprs \<Rightarrow>
          (None,
           notification_create
             (''Objects with type '' @ obj_type
                @ '' have been dumped to the log. See [the logs](/config/logs) to review the repr of the objects.'')
             ''Object dump completed''
             ''profile_object_dump''
             (s\<lparr>logged := logged s @ [ObjectsInMemory obj_type reprs]\<rparr>)))"

subsection \<open>Dumping the event loop's scheduled handles\<close>

text \<open>
  The limits of \<^verbatim>\<open>reprlib.aRepr\<close>, the shared instance every \<^verbatim>\<open>reprlib.repr\<close> call
  reads.
\<close>

record Repr =
  maxlevel :: int
  maxtuple :: int
  maxlist :: int
  maxarray :: int
  maxdict :: int
  maxset :: int
  maxfrozenset :: int
  maxdeque :: int
  maxstring :: int
  maxlong :: int
  maxother :: int

text \<open>
  A handle of the loop's \<^verbatim>\<open>_scheduled\<close> heap: whether it is cancelled, and what
  logging it does (\<open>None\<close> when the call returns). The record logged keeps the two
  limits in force when the handle was rendered.
\<close>

record timer_handle =
  handle_id :: nat
  handle_cancelled :: bool
  log_error :: "exn option"

fun log_scheduled :: "Repr \<Rightarrow> timer_handle list \<Rightarrow> hass \<Rightarrow> exn option \<times> hass" where
  "log_scheduled arepr [] s = (None, s)"
| "log_scheduled arepr (h # hs) s =
     (if \<not> handle_cancelled h then
        (case log_error h of
           Some e \<Rightarrow> (Some e, s)
         | None \<Rightarrow>
             log_scheduled arepr hs
               (s\<lparr>logged := logged s @ [Scheduled (handle_id h) (maxstring arepr) (maxother arepr)]\<rparr>))
      else log_scheduled arepr hs s)"

text \<open>
  \<^verbatim>\<open>_async_dump_scheduled\<close>: \<open>scheduled\<close> is what \<^verbatim>\<open>getattr(hass.loop, "_scheduled")\<close>
  gives, the handles or the \<^verbatim>\<open>AttributeError\<close> of a loop without that attribute.
  The \<^verbatim>\<open>finally\<close> block runs on both outcomes.
\<close>

definition async_dump_scheduled ::
    "exn + timer_handle list \<Rightarrow> Repr \<times> hass \<Rightarrow> exn option \<times> Repr \<times> hass" where
  "async_dump_scheduled scheduled = (\<lambda>(arepr, s).
     let original_maxstring = maxstring arepr;
         original_maxother = maxother arepr;
         arepr1 = arepr\<lparr>maxstring := 300, maxother := 300\<rparr>;
         (r, s1) = (case scheduled of
                      Inl e \<Rightarrow> (Some e, s)
                    | Inr handles \<Rightarrow> log_scheduled arepr1 handles s);
         arepr2 = arepr1\<lparr>maxstring := original_maxstring, maxother := original_maxother\<rparr>
     in (r, arepr2, s1))"

subsection \<open>The duration parameter and its schema\<close>

text \<open>
  The builtin \<^verbatim>\<open>float\<close>. What it makes of an integer (rounding, or
  \<^verbatim>\<open>OverflowError\<close>) and of a string (parsing, or \<^verbatim>\<open>ValueError\<close>) belongs to the
  interpreter and is taken as given; a float is returned as it is, a boolean becomes
  1.0 or 0.0, and \<^verbatim>\<open>None\<close> and the objects of \<open>VOther\<close> are a \<^verbatim>\<open>TypeError\<close>.
\<close>

record float_builtin =
  float_of_int :: "int \<Rightarrow> pyfloat option"
  float_of_str :: "string \<Rightarrow> pyfloat option"

definition py_float :: "float_builtin \<Rightarrow> pyval \<Rightarrow> exn + pyfloat" where
  "py_float fb v =
     (case v of
        VFloat f \<Rightarrow> Inr f
      | VBool b \<Rightarrow> Inr (Finite (if b then 1 else 0))
      | VInt i \<Rightarrow> (case float_of_int fb i of None \<Rightarrow> Inl OverflowError | Some f \<Rightarrow> Inr f)
      | VStr str \<Rightarrow> (case float_of_str fb str of None \<Rightarrow> Inl ValueError | Some f \<Rightarrow> Inr f)
      | VNone \<Rightarrow> Inl TypeError
      | VOther \<Rightarrow> Inl TypeError)"

text \<open>
  \<^verbatim>\<open>vol.Coerce(float)\<close> calls \<^verbatim>\<open>float\<close> and turns a \<^verbatim>\<open>ValueError\<close> or a
  \<^verbatim>\<open>TypeError\<close> into the validation error.
\<close>

definition Coerce_float :: "float_builtin \<Rightarrow> pyval \<Rightarrow> exn + pyval" where
  "Coerce_float fb v =
     (case py_float fb v of
        Inr f \<Rightarrow> Inr (VFloat f)
      | Inl e \<Rightarrow> if e = ValueError \<or> e = TypeError then Inl Invalid else Inl e)"

text \<open>
  The schema of the two profile actions,
  \<^verbatim>\<open>vol.Schema({vol.Optional(CONF_SECONDS, default=60.0): vol.Coerce(float)})\<close>:
  a key other than \<^verbatim>\<open>seconds\<close> is refused, a missing \<^verbatim>\<open>seconds\<close> is filled in
  with the default, and the value goes through the validator.
\<close>

definition seconds_schema :: "float_builtin \<Rightarrow> call_data \<Rightarrow> exn + call_data" where
  "seconds_schema fb data =
     (if dom data \<subseteq> {CONF_SECONDS} then
        (case Coerce_float fb
                (case data CONF_SECONDS of None \<Rightarrow> VFloat (Finite 60) | Some v \<Rightarrow> v) of
           Inl e \<Rightarrow> Inl e
         | Inr v \<Rightarrow> Inr [CONF_SECONDS \<mapsto> v])
      else Inl Invalid)"

fun is_positive :: "pyfloat \<Rightarrow> bool" where
  "is_positive (Finite x) = (0 < x)"
| "is_positive PosInf = True"
| "is_positive NegInf = False"
| "is_positive NaN = False"

subsection \<open>The CPU profile and the memory profile\<close>

text \<open>
  \<^verbatim>\<open>int(x)\<close> of a finite float truncates toward zero; \<^verbatim>\<open>str(n)\<close> of an integer is
  its decimal numeral.
\<close>

definition py_int :: "real \<Rightarrow> int" where
  "py_int x = (if 0 \<le> x then \<lfloor>x\<rfloor> else \<lceil>x\<rceil>)"

fun str_nat :: "nat \<Rightarrow> string" where
  "str_nat n =
     (if n < 10 then [''0123456789'' ! n]
      else str_nat (n div 10) @ [''0123456789'' ! (n mod 10)])"

declare str_nat.simps [simp del]

definition py_str :: "int \<Rightarrow> string" where
  "py_str i = (if i < 0 then ''-'' @ str_nat (nat (- i)) else str_nat (nat i))"

text \<open>
  The integer that a decimal numeral denotes, read digit by digit: an optional minus
  sign, then at least one digit. The digits are the characters with the codes 48 to
  57.
\<close>

definition digit_of :: "char \<Rightarrow> nat option" where
  "digit_of c =
     (let n = (of_char c :: nat) in if 48 \<le> n \<and> n \<le> 57 then Some (n - 48) else None)"

fun read_nat :: "nat \<Rightarrow> string \<Rightarrow> nat option" where
  "read_nat acc [] = Some acc"
| "read_nat acc (c # cs) =
     (case digit_of c of
        None \<Rightarrow> None
      | Some d \<Rightarrow> read_nat (10 * acc + d) cs)"

definition read_int :: "string \<Rightarrow> int option" where
  "read_int str =
     (case str of
        [] \<Rightarrow> None
      | c # cs \<Rightarrow>
          if c = CHR ''-''
          then (if cs = [] then None else map_option (\<lambda>n. - int n) (read_nat 0 cs))
          else map_option int (read_nat 0 str))"

text \<open>
  \<^verbatim>\<open>hass.config.path(name)\<close> joins the configuration directory and the name the way
  \<^verbatim>\<open>os.path.join\<close> does on POSIX.
\<close>

definition config_path :: "hass \<Rightarrow> string \<Rightarrow> string" where
  "config_path s name =
     (if take 1 name = ''/'' then name
      else if config_dir s = [] \<or> last (config_dir s) = CHR ''/'' then config_dir s @ name
      else config_dir s @ ''/'' @ name)"

text \<open>
  What one run of a profile action takes from its surroundings: \<open>time_us\<close>, the float
  that \<^verbatim>\<open>time.time() * 1000000\<close> evaluates to at the start; the interpreter's
  \<^verbatim>\<open>sys.version_info\<close> and \<^verbatim>\<open>float\<close>; whether \<^verbatim>\<open>from guppy import hpy\<close> fails
  (with the message of the \<^verbatim>\<open>ImportError\<close>); and whether writing a path fails (with
  the message of the \<^verbatim>\<open>OSError\<close>).
\<close>

record version_info =
  major :: int
  minor :: int
  micro :: int
  releaselevel :: string
  serial :: int

record profile_env =
  time_us :: real
  sys_version_info :: version_info
  float_fn :: float_builtin
  guppy_import_error :: "string option"
  write_error :: "string \<Rightarrow> string option"

text \<open>
  Python compares tuples lexicographically, and on a common prefix the longer one is
  the greater. Against the pair \<^verbatim>\<open>(3, 11)\<close> only the first components of
  \<^verbatim>\<open>sys.version_info\<close> are ever compared, all of them integers.
\<close>

fun tuple_ge :: "int list \<Rightarrow> int list \<Rightarrow> bool" where
  "tuple_ge [] [] = True"
| "tuple_ge (x # xs) [] = True"
| "tuple_ge [] (y # ys) = False"
| "tuple_ge (x # xs) (y # ys) = (if x = y then tuple_ge xs ys else y < x)"

definition version_ge_3_11 :: "version_info \<Rightarrow> bool" where
  "version_ge_3_11 v = tuple_ge [major v, minor v, micro v] [3, 11]"

definition unsupported_error :: exn where
  "unsupported_error =
     HomeAssistantError
       ''Memory profiling is not supported on Python 3.11. Please use Python 3.10.''"

definition add_event :: "event \<Rightarrow> hass \<Rightarrow> hass" where
  "add_event ev s = s\<lparr>trace := trace s @ [ev]\<rparr>"

text \<open>
  \<^verbatim>\<open>float(call.data[CONF_SECONDS])\<close>, the argument of \<^verbatim>\<open>asyncio.sleep\<close>.
\<close>

definition sleep_seconds :: "profile_env \<Rightarrow> call_data \<Rightarrow> exn + pyfloat" where
  "sleep_seconds env data =
     (case data CONF_SECONDS of
        None \<Rightarrow> Inl (KeyError CONF_SECONDS)
      | Some v \<Rightarrow> py_float (float_fn env) v)"

text \<open>
  \<^verbatim>\<open>_async_generate_profile\<close> in the three stretches its two \<^verbatim>\<open>await\<close>s cut it
  into. The first ends in the sleep and yields \<open>start_time\<close>, or raises.
\<close>

definition generate_profile_begin ::
    "profile_env \<Rightarrow> call_data \<Rightarrow> hass \<Rightarrow> (exn + int) \<times> hass" where
  "generate_profile_begin env data s =
     (let start_time = py_int (time_us env);
          s1 = notification_create
                 ''The profile has started. This notification will be updated when it is complete.''
                 ''Profile Started''
                 (''profiler_'' @ py_str start_time) s;
          s2 = add_event ProfilerEnable s1
      in case sleep_seconds env data of
           Inl e \<Rightarrow> (Inl e, s2)
         | Inr secs \<Rightarrow> (Inr start_time, add_event (Sleep secs) s2))"

definition cprofile_path :: "hass \<Rightarrow> int \<Rightarrow> string" where
  "cprofile_path s start_time = config_path s (''profile.'' @ py_str start_time @ ''.cprof'')"

definition callgrind_path :: "hass \<Rightarrow> int \<Rightarrow> string" where
  "callgrind_path s start_time = config_path s (''callgrind.out.'' @ py_str start_time)"

definition heap_path :: "hass \<Rightarrow> int \<Rightarrow> string" where
  "heap_path s start_time = config_path s (''heap_profile.'' @ py_str start_time @ ''.hpy'')"

text \<open>After the sleep: the profiler is disabled and the write is handed to the executor.\<close>

definition generate_profile_after_sleep :: "hass \<Rightarrow> hass" where
  "generate_profile_after_sleep s = add_event ProfilerDisable s"

text \<open>
  \<^verbatim>\<open>_write_profile\<close>, the executor job: \<^verbatim>\<open>dump_stats\<close> to the first path, then
  \<^verbatim>\<open>convert\<close> to the second.
\<close>

definition write_profile :: "profile_env \<Rightarrow> string \<Rightarrow> string \<Rightarrow> hass \<Rightarrow> exn option \<times> hass" where
  "write_profile env cprof callgrind s =
     (case write_error env cprof of
        Some m \<Rightarrow> (Some (OSError m), s)
      | None \<Rightarrow>
          (case write_error env callgrind of
             Some m \<Rightarrow> (Some (OSError m), add_event (DumpStats cprof) s)
           | None \<Rightarrow> (None, add_event (Convert callgrind) (add_event (DumpStats cprof) s))))"

text \<open>The executor job and, once it has returned, the closing notification.\<close>

definition generate_profile_finish :: "profile_env \<Rightarrow> int \<Rightarrow> hass \<Rightarrow> exn option \<times> hass" where
  "generate_profile_finish env start_time s =
     (case write_profile env (cprofile_path s start_time) (callgrind_path s start_time) s of
        (Some e, s1) \<Rightarrow> (Some e, s1)
      | (None, s1) \<Rightarrow>
          (None,
           notification_create
             (''Wrote cProfile data to '' @ cprofile_path s start_time
                @ '' and callgrind data to '' @ callgrind_path s start_time)
             ''Profile Complete''
             (''profiler_'' @ py_str start_time) s1))"

definition async_generate_profile ::
    "profile_env \<Rightarrow> call_data \<Rightarrow> hass \<Rightarrow> exn option \<times> hass" where
  "async_generate_profile env data s =
     (case generate_profile_begin env data s of
        (Inl e, s1) \<Rightarrow> (Some e, s1)
      | (Inr start_time, s1) \<Rightarrow>
          generate_profile_finish env start_time (generate_profile_after_sleep s1))"

text \<open>
  \<^verbatim>\<open>_async_generate_memory_profile\<close>, cut the same way. The version check comes
  first, then the import, and only then the notification and the heap profiler.
\<close>

definition generate_memory_profile_begin ::
    "profile_env \<Rightarrow> call_data \<Rightarrow> hass \<Rightarrow> (exn + int) \<times> hass" where
  "generate_memory_profile_begin env data s =
     (if version_ge_3_11 (sys_version_info env) then (Inl unsupported_error, s)
      else
        (case guppy_import_error env of
           Some m \<Rightarrow> (Inl (ImportError m), s)
         | None \<Rightarrow>
             (let start_time = py_int (time_us env);
                  s1 = notification_create
                         ''The memory profile has started. This notification will be updated when it is complete.''
                         ''Profile Started''
                         (''memory_profiler_'' @ py_str start_time) s;
                  s2 = add_event HpySetref (add_event HpyCreate s1)
              in case sleep_seconds env data of
                   Inl e \<Rightarrow> (Inl e, s2)
                 | Inr secs \<Rightarrow> (Inr start_time, add_event (Sleep secs) s2))))"

definition generate_memory_profile_after_sleep :: "hass \<Rightarrow> hass" where
  "generate_memory_profile_after_sleep s = add_event HpyHeap s"

definition write_memory_profile :: "profile_env \<Rightarrow> string \<Rightarrow> hass \<Rightarrow> exn option \<times> hass" where
  "write_memory_profile env path s =
     (case write_error env path of
        Some m \<Rightarrow> (Some (OSError m), s)
      | None \<Rightarrow> (None, add_event (HeapDump path) s))"

definition generate_memory_profile_finish ::
    "profile_env \<Rightarrow> int \<Rightarrow> hass \<Rightarrow> exn option \<times> hass" where
  "generate_memory_profile_finish env start_time s =
     (case write_memory_profile env (heap_path s start_time) s of
        (Some e, s1) \<Rightarrow> (Some e, s1)
      | (None, s1) \<Rightarrow>
          (None,
           notification_create
             (''Wrote heapy memory profile to '' @ heap_path s start_time)
             ''Profile Complete''
             (''memory_profiler_'' @ py_str start_time) s1))"

definition async_generate_memory_profile ::
    "profile_env \<Rightarrow> call_data \<Rightarrow> hass \<Rightarrow> exn option \<times> hass" where
  "async_generate_memory_profile env data s =
     (case generate_memory_profile_begin env data s of
        (Inl e, s1) \<Rightarrow> (Some e, s1)
      | (Inr start_time, s1) \<Rightarrow>
          generate_memory_profile_finish env start_time (generate_memory_profile_after_sleep s1))"

subsection \<open>The two profile actions under the lock\<close>

text \<open>
  \<^verbatim>\<open>_async_run_profile\<close> and \<^verbatim>\<open>_async_run_memory_profile\<close> wrap the two bodies in
  \<^verbatim>\<open>async with lock\<close>. The lock is a local variable of \<^verbatim>\<open>async_setup_entry\<close>:
  every call of the setup creates a new \<^verbatim>\<open>asyncio.Lock\<close>, and the two handlers it
  registers are closures over that lock. \<open>locks\<close> holds the locks created so far
  (\<open>True\<close> for a locked one), \<open>registered\<close> the lock of the handlers that are
  registered at the moment, and a coroutine carries the lock of the handler that
  started it. \<^verbatim>\<open>async_unload_entry\<close> removes the actions; it neither waits for the
  coroutines that are running nor cancels them.

  The event loop runs one coroutine at a time and switches only where a coroutine is
  suspended in an \<^verbatim>\<open>await\<close>, so an execution is a sequence of events, each a call of
  an action, a setup, an unload, or one coroutine running from where it was suspended
  to its next suspension. A coroutine in \<^verbatim>\<open>acquire\<close> on a locked lock is suspended
  until the lock is unlocked; leaving the \<^verbatim>\<open>async with\<close> block, by return or by
  exception, unlocks it.
\<close>

datatype action = CpuProfile | MemoryProfile

datatype pc =
    NotStarted
  | WaitingForLock
  | Sleeping int
  | Writing int
  | Finished "exn option"

record task =
  task_action :: action
  task_data :: call_data
  task_env :: profile_env
  task_lock :: nat
  task_pc :: pc

record system =
  locks :: "bool list"
  registered :: "nat option"
  tasks :: "task list"
  host :: hass

fun body_begin :: "action \<Rightarrow> profile_env \<Rightarrow> call_data \<Rightarrow> hass \<Rightarrow> (exn + int) \<times> hass" where
  "body_begin CpuProfile = generate_profile_begin"
| "body_begin MemoryProfile = generate_memory_profile_begin"

fun body_after_sleep :: "action \<Rightarrow> hass \<Rightarrow> hass" where
  "body_after_sleep CpuProfile = generate_profile_after_sleep"
| "body_after_sleep MemoryProfile = generate_memory_profile_after_sleep"

fun body_finish :: "action \<Rightarrow> profile_env \<Rightarrow> int \<Rightarrow> hass \<Rightarrow> exn option \<times> hass" where
  "body_finish CpuProfile = generate_profile_finish"
| "body_finish MemoryProfile = generate_memory_profile_finish"

definition set_pc :: "nat \<Rightarrow> pc \<Rightarrow> system \<Rightarrow> system" where
  "set_pc i p sys = sys\<lparr>tasks := (tasks sys)[i := (tasks sys ! i)\<lparr>task_pc := p\<rparr>]\<rparr>"

definition lock_held :: "system \<Rightarrow> nat \<Rightarrow> bool" where
  "lock_held sys k = (k < length (locks sys) \<and> locks sys ! k)"

definition set_lock :: "nat \<Rightarrow> bool \<Rightarrow> system \<Rightarrow> system" where
  "set_lock k b sys = sys\<lparr>locks := (locks sys)[k := b]\<rparr>"

text \<open>
  A coroutine that finds its lock unlocked takes it and runs on into the body, up to
  the sleep; if the body raises before that, the block is left and the lock unlocked
  within the same step.
\<close>

definition acquire_and_begin :: "nat \<Rightarrow> system \<Rightarrow> system" where
  "acquire_and_begin i sys =
     (let t = tasks sys ! i in
      case body_begin (task_action t) (task_env t) (task_data t) (host sys) of
        (Inl e, h) \<Rightarrow>
          set_pc i (Finished (Some e)) (set_lock (task_lock t) False (sys\<lparr>host := h\<rparr>))
      | (Inr start_time, h) \<Rightarrow>
          set_pc i (Sleeping start_time) (set_lock (task_lock t) True (sys\<lparr>host := h\<rparr>)))"

definition step :: "nat \<Rightarrow> system \<Rightarrow> system" where
  "step i sys =
     (if length (tasks sys) \<le> i then sys
      else
        (let t = tasks sys ! i in
         case task_pc t of
           NotStarted \<Rightarrow>
             if lock_held sys (task_lock t) then set_pc i WaitingForLock sys
             else acquire_and_begin i sys
         | WaitingForLock \<Rightarrow>
             if lock_held sys (task_lock t) then sys else acquire_and_begin i sys
         | Sleeping start_time \<Rightarrow>
             set_pc i (Writing start_time)
               (sys\<lparr>host := body_after_sleep (task_action t) (host sys)\<rparr>)
         | Writing start_time \<Rightarrow>
             (case body_finish (task_action t) (task_env t) start_time (host sys) of
                (r, h) \<Rightarrow>
                  set_pc i (Finished r) (set_lock (task_lock t) False (sys\<lparr>host := h\<rparr>)))
         | Finished r \<Rightarrow> sys))"

definition request :: "action \<Rightarrow> call_data \<Rightarrow> profile_env \<Rightarrow> nat \<Rightarrow> task" where
  "request a data env k =
     \<lparr>task_action = a, task_data = data, task_env = env, task_lock = k,
      task_pc = NotStarted\<rparr>"





fun in_body :: "pc \<Rightarrow> bool" where
  "in_body (Sleeping _) = True"
| "in_body (Writing _) = True"
| "in_body _ = False"


definition bodies_under :: "system \<Rightarrow> nat \<Rightarrow> nat" where
  "bodies_under sys k =
     length (filter (\<lambda>t. task_lock t = k \<and> in_body (task_pc t)) (tasks sys))"




section \<open>Properties\<close>

lemmas hass_ops = cancel_listener_def async_track_time_interval_def notification_create_def
  notification_dismiss_def log_objects_def

lemmas module_consts = SERVICES_def SERVICE_START_def SERVICE_MEMORY_def
  SERVICE_START_LOG_OBJECTS_def SERVICE_STOP_LOG_OBJECTS_def SERVICE_DUMP_LOG_OBJECTS_def
  SERVICE_LRU_STATS_def SERVICE_LOG_THREAD_FRAMES_def SERVICE_LOG_EVENT_LOOP_SCHEDULED_def
  CONF_SCAN_INTERVAL_def CONF_SECONDS_def LOG_INTERVAL_SUB_def

lemmas profile_defs = generate_profile_begin_def generate_profile_after_sleep_def
  generate_profile_finish_def write_profile_def async_generate_profile_def
  generate_memory_profile_begin_def generate_memory_profile_after_sleep_def
  generate_memory_profile_finish_def write_memory_profile_def async_generate_memory_profile_def


lemmas log_objects_handlers = async_start_log_objects_def start_log_objects_begin_def
  start_log_objects_finish_def async_stop_log_objects_def async_unload_entry_def
  async_setup_entry_def fresh_hass_def log_boot_def

subsection \<open>The subscription of the growth logging\<close>

lemma dom_sub_single_upd: "dom m \<subseteq> {x} \<Longrightarrow> m(x := None) = Map.empty"
proof (rule ext)
  fix y assume a: "dom m \<subseteq> {x}"
  show "(m(x := None)) y = None"
  proof (cases "y = x")
    case True then show ?thesis by simp
  next
    case False
    with a have "y \<notin> dom m" by blast
    with False show ?thesis by (simp add: domIff)
  qed
qed

lemma start_begin_none:
  "active_is_stored s \<Longrightarrow> listeners (start_log_objects_begin s) = Map.empty"
  by (auto simp: dom_sub_single_upd active_is_stored_def start_log_objects_begin_def hass_ops
      split: option.splits)

lemma start_begin_inv:
  "active_is_stored s \<Longrightarrow> active_is_stored (start_log_objects_begin s)"
  by (simp add: start_begin_none active_is_stored_def)

lemma start_finish_inv:
  "listeners s = Map.empty \<Longrightarrow> active_is_stored (snd (start_log_objects_finish d g s))"
  by (auto simp: active_is_stored_def start_log_objects_finish_def hass_ops
      split: option.splits sum.splits)

lemma stop_inv: "active_is_stored s \<Longrightarrow> active_is_stored (snd (async_stop_log_objects s))"
  by (auto simp: active_is_stored_def async_stop_log_objects_def hass_ops split: option.splits)

lemma stop_none:
  "active_is_stored s \<Longrightarrow> listeners (snd (async_stop_log_objects s)) = Map.empty"
  by (auto simp: dom_sub_single_upd active_is_stored_def async_stop_log_objects_def hass_ops
      split: option.splits)

lemma stop_keeps_none:
  "listeners s = Map.empty \<Longrightarrow> listeners (snd (async_stop_log_objects s)) = Map.empty"
  by (simp add: async_stop_log_objects_def hass_ops split: option.splits)

lemma unload_inv: "active_is_stored s \<Longrightarrow> active_is_stored (snd (async_unload_entry s))"
  by (auto simp: active_is_stored_def async_unload_entry_def Let_def hass_ops
      split: option.splits)

lemma unload_keeps_none:
  "listeners s = Map.empty \<Longrightarrow> listeners (snd (async_unload_entry s)) = Map.empty"
  by (simp add: async_unload_entry_def Let_def hass_ops split: option.splits)

lemma setup_inv: "listeners s = Map.empty \<Longrightarrow> active_is_stored (async_setup_entry s)"
  by (simp add: active_is_stored_def async_setup_entry_def)

lemma active_is_stored_card: "active_is_stored s \<Longrightarrow> card (dom (listeners s)) \<le> 1"
proof -
  assume "active_is_stored s"
  then have sub: "dom (listeners s) \<subseteq> set_option (domain_data s LOG_INTERVAL_SUB)"
    by (simp add: active_is_stored_def)
  have "card (set_option (domain_data s LOG_INTERVAL_SUB)) \<le> 1"
    by (cases "domain_data s LOG_INTERVAL_SUB") simp_all
  moreover have "finite (set_option (domain_data s LOG_INTERVAL_SUB))"
    by (cases "domain_data s LOG_INTERVAL_SUB") simp_all
  ultimately show ?thesis using sub card_mono le_trans by blast
qed

text \<open>
  As long as no start handler is called while another is suspended, every active
  subscription is the stored one, and so at most one is active, between any two events:
  also between a start handler's suspension and its resumption, and whatever a stop or
  an unload does in between.
\<close>

lemma apart_step:
  assumes "apart_inv sys" "\<And>data. ev = CallStart data \<Longrightarrow> suspended sys = []"
  shows "apart_inv (log_step ev sys)"
proof (cases ev)
  case (CallStart data)
  with assms(2) have e: "suspended sys = []" by simp
  from assms(1) have a: "active_is_stored (lhost sys)" by (simp add: apart_inv_def)
  from CallStart e a start_begin_inv [OF a] start_begin_none [OF a] assms(1)
  show ?thesis by (simp add: apart_inv_def)
next
  case (ResumeStart i growth)
  show ?thesis
  proof (cases "i < length (suspended sys)")
    case False
    with ResumeStart assms(1) show ?thesis by simp
  next
    case True
    with assms(1) have n: "listeners (lhost sys) = Map.empty" and l: "length (suspended sys) = 1"
      by (auto simp: apart_inv_def)
    from l True have i: "i = 0" by simp
    from l have "take 0 (suspended sys) @ drop (Suc 0) (suspended sys) = []" by simp
    with ResumeStart True i start_finish_inv [OF n, of "suspended sys ! 0" growth]
    show ?thesis by (simp add: apart_inv_def)
  qed
next
  case CallStop
  from assms(1) have a: "active_is_stored (lhost sys)" by (simp add: apart_inv_def)
  from CallStop assms(1) stop_inv [OF a] stop_keeps_none [of "lhost sys"]
  show ?thesis by (auto simp: apart_inv_def)
next
  case CallUnload
  from assms(1) have a: "active_is_stored (lhost sys)" by (simp add: apart_inv_def)
  from CallUnload assms(1) unload_inv [OF a] unload_keeps_none [of "lhost sys"]
  show ?thesis by (auto simp: apart_inv_def)
qed

lemma apart_run:
  "apart_inv sys \<Longrightarrow> starts_apart evs sys \<Longrightarrow> apart_inv (log_run evs sys)"
proof (induction evs arbitrary: sys)
  case Nil
  then show ?case by simp
next
  case (Cons ev evs)
  have s: "\<And>data. ev = CallStart data \<Longrightarrow> suspended sys = []"
    using Cons.prems(2) by auto
  have "starts_apart evs (log_step ev sys)"
    using Cons.prems(2) by (cases ev) auto
  with Cons.IH [OF apart_step [OF Cons.prems(1) s]] show ?case by simp
qed

lemma starts_apart_one_active:
  "starts_apart evs (log_boot dir) \<Longrightarrow>
   active_is_stored (lhost (log_run evs (log_boot dir))) \<and>
   card (dom (listeners (lhost (log_run evs (log_boot dir))))) \<le> 1"
proof -
  assume a: "starts_apart evs (log_boot dir)"
  have "apart_inv (log_boot dir)"
    by (simp add: apart_inv_def log_boot_def setup_inv fresh_hass_def)
  from apart_run [OF this a] have "active_is_stored (lhost (log_run evs (log_boot dir)))"
    by (simp add: apart_inv_def)
  then show ?thesis using active_is_stored_card by blast
qed

text \<open>
  Claim C2. The code breaks this claim. The start handler is suspended between calling
  the stored subscription and storing the new one. Two start calls, the second while
  the first is waiting for its sample: neither finds a subscription to cancel, and
  each installs one when it resumes. Two subscriptions are active; the state holds the
  second, and the first is stored nowhere, so the stop action and the unload that
  follow cancel the second and leave the first running.
\<close>

theorem overlapping_starts_leave_two:
  "(let d = [CONF_SCAN_INTERVAL \<mapsto> VOther];
        sys = log_run [CallStart d, CallStart d, ResumeStart 0 (Inr []), ResumeStart 0 (Inr [])]
                (log_boot ''/config'')
    in dom (listeners (lhost sys)) = {0, 1} \<and>
       card (dom (listeners (lhost sys))) = 2 \<and>
       domain_data (lhost sys) LOG_INTERVAL_SUB = Some 1 \<and>
       suspended sys = [] \<and>
       dom (listeners (lhost (log_run [CallStop] sys))) = {0} \<and>
       dom (listeners (lhost (log_run [CallStop, CallUnload] sys))) = {0} \<and>
       dom (listeners (lhost (log_run [CallUnload] sys))) = {0})"
proof -
  define sys where "sys = log_run [CallStart [CONF_SCAN_INTERVAL \<mapsto> VOther],
      CallStart [CONF_SCAN_INTERVAL \<mapsto> VOther], ResumeStart 0 (Inr []),
      ResumeStart 0 (Inr [])] (log_boot ''/config'')"
  have a: "dom (listeners (lhost sys)) = {0, 1}"
    by (simp add: sys_def log_objects_handlers hass_ops module_consts) blast
  then have b: "card (dom (listeners (lhost sys))) = 2" by simp
  have c: "domain_data (lhost sys) LOG_INTERVAL_SUB = Some 1"
    by (simp add: sys_def log_objects_handlers hass_ops module_consts)
  have d: "suspended sys = []"
    by (simp add: sys_def log_objects_handlers hass_ops module_consts)
  have e: "dom (listeners (lhost (log_run [CallStop] sys))) = {0}"
    by (simp add: sys_def log_objects_handlers hass_ops module_consts)
  have f: "dom (listeners (lhost (log_run [CallStop, CallUnload] sys))) = {0}"
    by (simp add: sys_def log_objects_handlers hass_ops module_consts Let_def)
  have g: "dom (listeners (lhost (log_run [CallUnload] sys))) = {0}"
    by (simp add: sys_def log_objects_handlers hass_ops module_consts Let_def)
  from a b c d e f g show ?thesis
    unfolding Let_def sys_def by (intro conjI)
qed

text \<open>
  Claim C6, as it holds. The stop handler never raises, and after it no subscription is
  stored; running it again changes nothing. When no subscription is stored, it returns
  and leaves the state as it was. When a subscription is stored, that subscription is
  cancelled and removed from the state, the notification \<^verbatim>\<open>profile_object_logging\<close>
  is dismissed, and nothing else changes. In a state whose active subscriptions are
  stored, no subscription is active afterwards.
\<close>

theorem stop_log_objects:
  "fst (async_stop_log_objects s) = None \<and>
   domain_data (snd (async_stop_log_objects s)) LOG_INTERVAL_SUB = None \<and>
   async_stop_log_objects (snd (async_stop_log_objects s))
     = (None, snd (async_stop_log_objects s)) \<and>
   (domain_data s LOG_INTERVAL_SUB = None \<longrightarrow> async_stop_log_objects s = (None, s)) \<and>
   (domain_data s LOG_INTERVAL_SUB = Some h \<longrightarrow>
      listeners (snd (async_stop_log_objects s)) = (listeners s)(h := None) \<and>
      domain_data (snd (async_stop_log_objects s)) = (domain_data s)(LOG_INTERVAL_SUB := None) \<and>
      notifications (snd (async_stop_log_objects s)) =
        (notifications s)(''profile_object_logging'' := None) \<and>
      snd (async_stop_log_objects s) =
        s\<lparr>listeners := listeners (snd (async_stop_log_objects s)),
          domain_data := domain_data (snd (async_stop_log_objects s)),
          notifications := notifications (snd (async_stop_log_objects s))\<rparr>) \<and>
   (active_is_stored s \<longrightarrow> listeners (snd (async_stop_log_objects s)) = Map.empty)"
proof -
  have a: "fst (async_stop_log_objects s) = None"
    by (simp add: async_stop_log_objects_def split: option.splits)
  have b: "domain_data (snd (async_stop_log_objects s)) LOG_INTERVAL_SUB = None"
    by (simp add: async_stop_log_objects_def hass_ops split: option.splits)
  have n: "domain_data t LOG_INTERVAL_SUB = None \<Longrightarrow> async_stop_log_objects t = (None, t)"
    for t by (simp add: async_stop_log_objects_def)
  have c: "async_stop_log_objects (snd (async_stop_log_objects s))
     = (None, snd (async_stop_log_objects s))"
    by (rule n [OF b])
  have d: "domain_data s LOG_INTERVAL_SUB = Some h \<longrightarrow>
      listeners (snd (async_stop_log_objects s)) = (listeners s)(h := None) \<and>
      domain_data (snd (async_stop_log_objects s)) = (domain_data s)(LOG_INTERVAL_SUB := None) \<and>
      notifications (snd (async_stop_log_objects s)) =
        (notifications s)(''profile_object_logging'' := None) \<and>
      snd (async_stop_log_objects s) =
        s\<lparr>listeners := listeners (snd (async_stop_log_objects s)),
          domain_data := domain_data (snd (async_stop_log_objects s)),
          notifications := notifications (snd (async_stop_log_objects s))\<rparr>"
    by (simp add: async_stop_log_objects_def hass_ops)
  from a b c n [of s] d stop_none [of s] show ?thesis by blast
qed

theorem stop_log_objects_witness:
  "(let s = lhost (log_run [CallStart [CONF_SCAN_INTERVAL \<mapsto> VOther], ResumeStart 0 (Inr [])]
                (log_boot ''/config''))
    in domain_data s LOG_INTERVAL_SUB = Some 0 \<and>
       active_is_stored s \<and>
       listeners s 0 = Some VOther \<and>
       notifications s ''profile_object_logging'' \<noteq> None \<and>
       listeners (snd (async_stop_log_objects s)) = Map.empty \<and>
       notifications (snd (async_stop_log_objects s)) ''profile_object_logging'' = None \<and>
       async_stop_log_objects (lhost (log_boot ''/config''))
         = (None, lhost (log_boot ''/config'')))"
proof -
  define s where "s = lhost (log_run [CallStart [CONF_SCAN_INTERVAL \<mapsto> VOther],
      ResumeStart 0 (Inr [])] (log_boot ''/config''))"
  have a: "domain_data s LOG_INTERVAL_SUB = Some 0"
    by (simp add: s_def log_objects_handlers hass_ops module_consts)
  have b: "active_is_stored s"
    by (simp add: s_def active_is_stored_def log_objects_handlers hass_ops module_consts)
  have c: "listeners s 0 = Some VOther"
    by (simp add: s_def log_objects_handlers hass_ops module_consts)
  have d: "notifications s ''profile_object_logging'' \<noteq> None"
    by (simp add: s_def log_objects_handlers hass_ops module_consts)
  have e: "domain_data (lhost (log_boot ''/config'')) LOG_INTERVAL_SUB = None"
    by (simp add: log_objects_handlers)
  note th = stop_log_objects [of s 0]
  from th b have f: "listeners (snd (async_stop_log_objects s)) = Map.empty" by blast
  from th a have "notifications (snd (async_stop_log_objects s)) =
        (notifications s)(''profile_object_logging'' := None)" by blast
  then have g: "notifications (snd (async_stop_log_objects s)) ''profile_object_logging'' = None"
    by simp
  from stop_log_objects [of "lhost (log_boot ''/config'')" 0] e
  have h: "async_stop_log_objects (lhost (log_boot ''/config''))
         = (None, lhost (log_boot ''/config''))" by blast
  from a b c d f g h show ?thesis
    unfolding Let_def s_def by (intro conjI)
qed

text \<open>
  Claim C6, as stated, fails: the handler tests whether a subscription is stored, not
  whether one is active. A start call succeeds; a second start call cancels the stored
  subscription and then raises, because its sample raises. No subscription is active
  now, but the cancelled one is still stored and the notification is up: the stop
  handler removes the one and dismisses the other, so the state is not what it was.
\<close>

theorem stop_changes_state_with_none_active:
  "(let s = lhost (log_run [CallStart [CONF_SCAN_INTERVAL \<mapsto> VOther], ResumeStart 0 (Inr []),
                  CallStart [CONF_SCAN_INTERVAL \<mapsto> VOther],
                  ResumeStart 0 (Inl (OtherException ''RuntimeError''))]
                (log_boot ''/config''))
    in listeners s = Map.empty \<and>
       domain_data s LOG_INTERVAL_SUB = Some 0 \<and>
       notifications s ''profile_object_logging'' \<noteq> None \<and>
       domain_data (snd (async_stop_log_objects s)) LOG_INTERVAL_SUB = None \<and>
       notifications (snd (async_stop_log_objects s)) ''profile_object_logging'' = None \<and>
       snd (async_stop_log_objects s) \<noteq> s)"
proof -
  define s where "s = lhost (log_run [CallStart [CONF_SCAN_INTERVAL \<mapsto> VOther],
      ResumeStart 0 (Inr []), CallStart [CONF_SCAN_INTERVAL \<mapsto> VOther],
      ResumeStart 0 (Inl (OtherException ''RuntimeError''))] (log_boot ''/config''))"
  have a: "listeners s = Map.empty"
    by (simp add: s_def log_objects_handlers hass_ops module_consts)
  have b: "domain_data s LOG_INTERVAL_SUB = Some 0"
    by (simp add: s_def log_objects_handlers hass_ops module_consts)
  have c: "notifications s ''profile_object_logging'' \<noteq> None"
    by (simp add: s_def log_objects_handlers hass_ops module_consts)
  have d: "domain_data (snd (async_stop_log_objects s)) LOG_INTERVAL_SUB = None"
    by (simp add: async_stop_log_objects_def hass_ops split: option.splits)
  from b have e: "notifications (snd (async_stop_log_objects s)) ''profile_object_logging'' = None"
    by (simp add: async_stop_log_objects_def hass_ops)
  from b d have f: "snd (async_stop_log_objects s) \<noteq> s" by auto
  from a b c d e f show ?thesis
    unfolding Let_def s_def by (intro conjI)
qed

subsection \<open>Dumping the live instances of a type\<close>






text \<open>
  The placeholder itself can fail. An instance whose serialization raises an ordinary
  exception, of a class whose metaclass raises when the class is printed: the second
  exception leaves \<^verbatim>\<open>_safe_repr\<close> from inside its \<^verbatim>\<open>except\<close> block, and the dump is
  aborted with nothing logged.
\<close>

lemma placeholder_can_raise:
  "dump_log_objects ''Foo''
     [\<lparr>ob_type = \<lparr>tp_module = ''app'', tp_name = ''Foo'', tp_qualname = ''Foo'',
                  tp_printing = Some (Inl (OtherException ''RuntimeError''))\<rparr>,
       ob_repr = Inl ValueError\<rparr>,
      \<lparr>ob_type = \<lparr>tp_module = ''app'', tp_name = ''Foo'', tp_qualname = ''Foo'',
                  tp_printing = Some (Inl (OtherException ''RuntimeError''))\<rparr>,
       ob_repr = Inr ''<Foo 2>''\<rparr>]
     (fresh_hass ''/config'')
   = (Some (OtherException ''RuntimeError''), fresh_hass ''/config'')"
  by (simp add: dump_log_objects_def safe_repr_def format_type_def)

subsection \<open>Dumping the scheduled handles\<close>

lemma log_scheduled_logged:
  "logged (snd (log_scheduled arepr hs s)) =
     logged s @ map (\<lambda>h. Scheduled (handle_id h) (maxstring arepr) (maxother arepr))
       (filter (\<lambda>h. \<not> handle_cancelled h)
          (takeWhile (\<lambda>h. handle_cancelled h \<or> log_error h = None) hs))"
  by (induction hs arbitrary: s) (auto split: option.splits)

lemma log_scheduled_frame:
  "(snd (log_scheduled arepr hs s))\<lparr>logged := logged s\<rparr> = s"
proof -
  have "(snd (log_scheduled arepr hs s))\<lparr>logged := l\<rparr> = s\<lparr>logged := l\<rparr>" for l
    by (induction hs arbitrary: s) (auto split: option.splits)
  from this [of "logged s"] show ?thesis by simp
qed

lemma log_scheduled_result:
  "fst (log_scheduled arepr hs s) =
     (case dropWhile (\<lambda>h. handle_cancelled h \<or> log_error h = None) hs of
        [] \<Rightarrow> None
      | h # _ \<Rightarrow> log_error h)"
  by (induction hs arbitrary: s) (auto split: option.splits)

text \<open>
  Claim C5. Whatever the scheduler-dump handler meets (the loop has no
  \<^verbatim>\<open>_scheduled\<close> attribute, logging a handle raises, or every handle is logged), the
  shared \<^verbatim>\<open>reprlib.aRepr\<close> is afterwards what it was before: \<^verbatim>\<open>maxstring\<close> and
  \<^verbatim>\<open>maxother\<close> have their original values, and no other limit has changed. The
  host's state differs at most by the entries logged, and each of them was rendered
  with both limits at 300.
\<close>

theorem dump_scheduled_restores:
  "fst (snd (async_dump_scheduled scheduled (arepr, s))) = arepr \<and>
   (snd (snd (async_dump_scheduled scheduled (arepr, s))))\<lparr>logged := logged s\<rparr> = s \<and>
   (\<forall>r \<in> set (drop (length (logged s))
               (logged (snd (snd (async_dump_scheduled scheduled (arepr, s)))))).
      \<exists>h. r = Scheduled h 300 300)"
proof -
  have "fst (snd (async_dump_scheduled scheduled (arepr, s))) = arepr"
    by (simp add: async_dump_scheduled_def Let_def split: prod.splits)
  moreover
  have "(snd (snd (async_dump_scheduled scheduled (arepr, s))))\<lparr>logged := logged s\<rparr> = s"
  proof (cases scheduled)
    case (Inl e)
    then show ?thesis by (simp add: async_dump_scheduled_def Let_def)
  next
    case (Inr hs)
    then show ?thesis
      using log_scheduled_frame [where arepr = "arepr\<lparr>maxstring := 300, maxother := 300\<rparr>"
          and hs = hs and s = s]
      by (simp add: async_dump_scheduled_def Let_def case_prod_beta)
  qed
  moreover have "\<forall>r \<in> set (drop (length (logged s))
               (logged (snd (snd (async_dump_scheduled scheduled (arepr, s)))))).
      \<exists>h. r = Scheduled h 300 300"
  proof (cases scheduled)
    case (Inl e)
    then show ?thesis by (simp add: async_dump_scheduled_def Let_def)
  next
    case (Inr hs)
    then show ?thesis
      using log_scheduled_logged [of "arepr\<lparr>maxstring := 300, maxother := 300\<rparr>" hs s]
      by (auto simp: async_dump_scheduled_def Let_def case_prod_beta)
  qed
  ultimately show ?thesis by blast
qed

theorem dump_scheduled_restores_witness:
  "(let arepr = \<lparr>maxlevel = 6, maxtuple = 6, maxlist = 6, maxarray = 5, maxdict = 4,
                 maxset = 6, maxfrozenset = 6, maxdeque = 6, maxstring = 30, maxlong = 40,
                 maxother = 30\<rparr>;
        handles = [\<lparr>handle_id = 1, handle_cancelled = False, log_error = None\<rparr>,
                   \<lparr>handle_id = 2, handle_cancelled = False,
                    log_error = Some (OtherException ''ValueError'')\<rparr>,
                   \<lparr>handle_id = 3, handle_cancelled = False, log_error = None\<rparr>]
    in async_dump_scheduled (Inr handles) (arepr, fresh_hass ''/config'') =
         (Some (OtherException ''ValueError''), arepr,
          (fresh_hass ''/config'')\<lparr>logged := [Scheduled 1 300 300]\<rparr>))"
  using dump_scheduled_restores [of
      "Inr [\<lparr>handle_id = 1, handle_cancelled = False, log_error = None\<rparr>,
            \<lparr>handle_id = 2, handle_cancelled = False,
             log_error = Some (OtherException ''ValueError'')\<rparr>,
            \<lparr>handle_id = 3, handle_cancelled = False, log_error = None\<rparr>]"
      "\<lparr>maxlevel = 6, maxtuple = 6, maxlist = 6, maxarray = 5, maxdict = 4,
        maxset = 6, maxfrozenset = 6, maxdeque = 6, maxstring = 30, maxlong = 40,
        maxother = 30\<rparr>" "fresh_hass ''/config''"]
  by (simp add: async_dump_scheduled_def Let_def fresh_hass_def)

text \<open>
  Claim C7, as it holds. The handler logs one entry for every handle of the queue that
  is not cancelled, in the order of the queue and rendered with both limits at 300, up
  to the first handle whose logging raises; a cancelled handle is skipped. When no
  logging raises, that is one entry for each handle that is not cancelled.
\<close>

theorem dump_scheduled_logs:
  "logged (snd (snd (async_dump_scheduled (Inr hs) (arepr, s)))) =
     logged s @ map (\<lambda>h. Scheduled (handle_id h) 300 300)
       (filter (\<lambda>h. \<not> handle_cancelled h)
          (takeWhile (\<lambda>h. handle_cancelled h \<or> log_error h = None) hs)) \<and>
   fst (async_dump_scheduled (Inr hs) (arepr, s)) =
     (case dropWhile (\<lambda>h. handle_cancelled h \<or> log_error h = None) hs of
        [] \<Rightarrow> None
      | h # _ \<Rightarrow> log_error h)"
  using log_scheduled_logged [of "arepr\<lparr>maxstring := 300, maxother := 300\<rparr>" hs s]
    log_scheduled_result [of "arepr\<lparr>maxstring := 300, maxother := 300\<rparr>" hs s]
  by (simp add: async_dump_scheduled_def Let_def case_prod_beta)

theorem dump_scheduled_logs_witness:
  "logged (snd (snd (async_dump_scheduled
      (Inr [\<lparr>handle_id = 1, handle_cancelled = False, log_error = None\<rparr>,
            \<lparr>handle_id = 2, handle_cancelled = True, log_error = None\<rparr>,
            \<lparr>handle_id = 3, handle_cancelled = False, log_error = None\<rparr>])
      (\<lparr>maxlevel = 6, maxtuple = 6, maxlist = 6, maxarray = 5, maxdict = 4,
        maxset = 6, maxfrozenset = 6, maxdeque = 6, maxstring = 30, maxlong = 40,
        maxother = 30\<rparr>, fresh_hass ''/config''))))
   = [Scheduled 1 300 300, Scheduled 3 300 300]"
  using dump_scheduled_logs [of
      "[\<lparr>handle_id = 1, handle_cancelled = False, log_error = None\<rparr>,
        \<lparr>handle_id = 2, handle_cancelled = True, log_error = None\<rparr>,
        \<lparr>handle_id = 3, handle_cancelled = False, log_error = None\<rparr>]"
      "\<lparr>maxlevel = 6, maxtuple = 6, maxlist = 6, maxarray = 5, maxdict = 4,
        maxset = 6, maxfrozenset = 6, maxdeque = 6, maxstring = 30, maxlong = 40,
        maxother = 30\<rparr>" "fresh_hass ''/config''"]
  by (simp add: fresh_hass_def)

text \<open>
  Claim C7, as stated, fails: the loop tests \<^verbatim>\<open>handle.cancelled()\<close>. With one handle
  in the queue, a cancelled one, the handler returns and has logged nothing.
\<close>

theorem dump_scheduled_skips_cancelled:
  "async_dump_scheduled
      (Inr [\<lparr>handle_id = 7, handle_cancelled = True, log_error = None\<rparr>])
      (\<lparr>maxlevel = 6, maxtuple = 6, maxlist = 6, maxarray = 5, maxdict = 4,
        maxset = 6, maxfrozenset = 6, maxdeque = 6, maxstring = 30, maxlong = 40,
        maxother = 30\<rparr>, fresh_hass ''/config'')
   = (None,
      \<lparr>maxlevel = 6, maxtuple = 6, maxlist = 6, maxarray = 5, maxdict = 4,
        maxset = 6, maxfrozenset = 6, maxdeque = 6, maxstring = 30, maxlong = 40,
        maxother = 30\<rparr>, fresh_hass ''/config'')"
  by (simp add: async_dump_scheduled_def Let_def)

subsection \<open>The memory profile on an unsupported interpreter\<close>

lemma version_ge_3_11_iff:
  "version_ge_3_11 v = (3 < major v \<or> (major v = 3 \<and> 11 \<le> minor v))"
  by (auto simp: version_ge_3_11_def)

lemma sleep_seconds_not_ha: "sleep_seconds env data \<noteq> Inl (HomeAssistantError m)"
  by (auto simp: sleep_seconds_def py_float_def split: option.splits pyval.splits)

lemma memory_begin_unsupported:
  "version_ge_3_11 (sys_version_info env) \<Longrightarrow>
   generate_memory_profile_begin env data s = (Inl unsupported_error, s)"
  by (simp add: generate_memory_profile_begin_def)

text \<open>
  Claim C3. On an interpreter whose version is 3.11 or later, the one the handler takes
  to lack heap introspection, the memory-profile handler raises the error
  \<^verbatim>\<open>HomeAssistantError\<close> with the message on memory profiling, and the state is what
  it was: no notification is created, the heap profiler is neither constructed nor
  given its reference point, nothing is slept and nothing is written. The same holds
  through the registered handler: taking its free lock, it ends with that error, the
  host's state is untouched and the lock is free again.
\<close>

theorem memory_profile_unsupported:
  "version_ge_3_11 (sys_version_info env) \<Longrightarrow>
   generate_memory_profile_begin env data s = (Inl unsupported_error, s) \<and>
   async_generate_memory_profile env data s = (Some unsupported_error, s) \<and>
   (i < length (tasks sys) \<and> \<not> lock_held sys k \<and> host sys = s \<and>
    tasks sys ! i = request MemoryProfile data env k \<longrightarrow>
      step i sys = set_pc i (Finished (Some unsupported_error)) sys)"
proof -
  assume v: "version_ge_3_11 (sys_version_info env)"
  have a: "generate_memory_profile_begin env data s = (Inl unsupported_error, s)"
    by (rule memory_begin_unsupported [OF v])
  then have b: "async_generate_memory_profile env data s = (Some unsupported_error, s)"
    by (simp add: async_generate_memory_profile_def)
  have c: "step i sys = set_pc i (Finished (Some unsupported_error)) sys"
    if "i < length (tasks sys)" "\<not> lock_held sys k" "host sys = s"
      "tasks sys ! i = request MemoryProfile data env k"
  proof -
    have "(locks sys)[k := False] = locks sys"
    proof (cases "k < length (locks sys)")
      case True
      with that(2) have "locks sys ! k = False" by (simp add: lock_held_def)
      then show ?thesis using list_update_id [of "locks sys" k] by simp
    next
      case False
      then have "length (locks sys) \<le> k" by simp
      then show ?thesis by (rule list_update_beyond)
    qed
    with that(3) have e: "set_lock k False (sys\<lparr>host := s\<rparr>) = sys"
      by (cases sys) (auto simp: set_lock_def)
    from that a have "step i sys =
        set_pc i (Finished (Some unsupported_error)) (set_lock k False (sys\<lparr>host := s\<rparr>))"
      by (simp add: step_def acquire_and_begin_def request_def)
    then show ?thesis by (simp only: e)
  qed
  from a b c show ?thesis by blast
qed

theorem memory_profile_unsupported_witness:
  "(let env = \<lparr>time_us = 5,
               sys_version_info = \<lparr>major = 3, minor = 11, micro = 0, releaselevel = ''final'', serial = 0\<rparr>,
               float_fn = \<lparr>float_of_int = (\<lambda>i. None), float_of_str = (\<lambda>t. None)\<rparr>,
               guppy_import_error = None, write_error = (\<lambda>p. None)\<rparr>
    in version_ge_3_11 (sys_version_info env) \<and>
       async_generate_memory_profile env [CONF_SECONDS \<mapsto> VFloat (Finite 60)] (fresh_hass ''/config'')
         = (Some (HomeAssistantError
              ''Memory profiling is not supported on Python 3.11. Please use Python 3.10.''),
            fresh_hass ''/config''))"
proof -
  let ?env = "\<lparr>time_us = 5,
               sys_version_info = \<lparr>major = 3, minor = 11, micro = 0, releaselevel = ''final'', serial = 0\<rparr>,
               float_fn = \<lparr>float_of_int = (\<lambda>i. None), float_of_str = (\<lambda>t. None)\<rparr>,
               guppy_import_error = None, write_error = (\<lambda>p. None)\<rparr>"
  have v: "version_ge_3_11 (sys_version_info ?env)"
    by (simp add: version_ge_3_11_def)
  show ?thesis
    using memory_profile_unsupported [OF v, of "[CONF_SECONDS \<mapsto> VFloat (Finite 60)]"
        "fresh_hass ''/config''"] v
    by (simp add: unsupported_error_def)
qed

text \<open>
  Claim C10. The check of the memory-profile handler compares the interpreter's version
  and nothing else: the handler raises a \<^verbatim>\<open>HomeAssistantError\<close> exactly when the
  version is 3.11 or later (3.12 and 4.0 included), and then it is the error of the
  check, raised before anything else happens. On an earlier version it never raises
  that error, whether the heap library is there or not: when the import of the library
  fails, what is raised is the \<^verbatim>\<open>ImportError\<close>.
\<close>

theorem memory_profile_version_check:
  "(\<exists>m. fst (async_generate_memory_profile env data s) = Some (HomeAssistantError m))
     = (3 < major (sys_version_info env) \<or>
        (major (sys_version_info env) = 3 \<and> 11 \<le> minor (sys_version_info env))) \<and>
   (3 < major (sys_version_info env) \<or>
    (major (sys_version_info env) = 3 \<and> 11 \<le> minor (sys_version_info env))
      \<longrightarrow> async_generate_memory_profile env data s = (Some unsupported_error, s)) \<and>
   (\<not> (3 < major (sys_version_info env) \<or>
        (major (sys_version_info env) = 3 \<and> 11 \<le> minor (sys_version_info env))) \<and>
    guppy_import_error env = Some msg
      \<longrightarrow> async_generate_memory_profile env data s = (Some (ImportError msg), s))"
proof (cases "version_ge_3_11 (sys_version_info env)")
  case True
  then show ?thesis
    using version_ge_3_11_iff [of "sys_version_info env"]
    by (simp add: async_generate_memory_profile_def generate_memory_profile_begin_def
        unsupported_error_def)
next
  case False
  have "fst (async_generate_memory_profile env data s) \<noteq> Some (HomeAssistantError m)" for m
    using False sleep_seconds_not_ha [of env data m]
    by (auto simp: async_generate_memory_profile_def generate_memory_profile_begin_def Let_def
        generate_memory_profile_finish_def write_memory_profile_def
        split: option.splits sum.splits prod.splits)
  moreover have "guppy_import_error env = Some msg
      \<longrightarrow> async_generate_memory_profile env data s = (Some (ImportError msg), s)"
    using False
    by (simp add: async_generate_memory_profile_def generate_memory_profile_begin_def)
  ultimately show ?thesis
    using False version_ge_3_11_iff [of "sys_version_info env"] by auto
qed

theorem memory_profile_version_check_witness:
  "(\<exists>m. fst (async_generate_memory_profile
       \<lparr>time_us = 5,
        sys_version_info = \<lparr>major = 3, minor = 12, micro = 1, releaselevel = ''final'', serial = 0\<rparr>,
        float_fn = \<lparr>float_of_int = (\<lambda>i. None), float_of_str = (\<lambda>t. None)\<rparr>,
        guppy_import_error = None, write_error = (\<lambda>p. None)\<rparr>
       [CONF_SECONDS \<mapsto> VFloat (Finite 60)] (fresh_hass ''/config'')) = Some (HomeAssistantError m)) \<and>
   async_generate_memory_profile
       \<lparr>time_us = 5,
        sys_version_info = \<lparr>major = 3, minor = 10, micro = 9, releaselevel = ''final'', serial = 0\<rparr>,
        float_fn = \<lparr>float_of_int = (\<lambda>i. None), float_of_str = (\<lambda>t. None)\<rparr>,
        guppy_import_error = Some ''No module named guppy'', write_error = (\<lambda>p. None)\<rparr>
       [CONF_SECONDS \<mapsto> VFloat (Finite 60)] (fresh_hass ''/config'')
     = (Some (ImportError ''No module named guppy''), fresh_hass ''/config'')"
proof -
  let ?e12 = "\<lparr>time_us = 5,
        sys_version_info = \<lparr>major = 3, minor = 12, micro = 1, releaselevel = ''final'', serial = 0\<rparr>,
        float_fn = \<lparr>float_of_int = (\<lambda>i. None), float_of_str = (\<lambda>t. None)\<rparr>,
        guppy_import_error = None, write_error = (\<lambda>p. None)\<rparr>"
  let ?e10 = "\<lparr>time_us = 5,
        sys_version_info = \<lparr>major = 3, minor = 10, micro = 9, releaselevel = ''final'', serial = 0\<rparr>,
        float_fn = \<lparr>float_of_int = (\<lambda>i. None), float_of_str = (\<lambda>t. None)\<rparr>,
        guppy_import_error = Some ''No module named guppy'', write_error = (\<lambda>p. None)\<rparr>"
  let ?d = "[CONF_SECONDS \<mapsto> VFloat (Finite 60)]"
  have a: "\<exists>m. fst (async_generate_memory_profile ?e12 ?d (fresh_hass ''/config''))
      = Some (HomeAssistantError m)"
    using memory_profile_version_check [of ?e12 ?d "fresh_hass ''/config''"]
    by (simp add: unsupported_error_def)
  have b: "async_generate_memory_profile ?e10 ?d (fresh_hass ''/config'')
     = (Some (ImportError ''No module named guppy''), fresh_hass ''/config'')"
    using memory_profile_version_check [of ?e10 ?d "fresh_hass ''/config''"
        "''No module named guppy''"] by simp
  from a b show ?thesis by (rule conjI)
qed

subsection \<open>The names of the output files\<close>

lemma py_int_truncates:
  "\<bar>real_of_int (py_int x)\<bar> \<le> \<bar>x\<bar> \<and> \<bar>x - real_of_int (py_int x)\<bar> < 1"
proof (cases "0 \<le> x")
  case True
  then have "0 \<le> \<lfloor>x\<rfloor>" by simp
  with True show ?thesis unfolding py_int_def by simp linarith
next
  case False
  then have "\<lceil>x\<rceil> \<le> 0" by (simp add: ceiling_le_zero)
  with False show ?thesis unfolding py_int_def by simp linarith
qed

lemma py_int_floor: "0 \<le> x \<Longrightarrow> py_int x = \<lfloor>x\<rfloor>"
  by (simp add: py_int_def)

lemma digit_of_digits: "d < 10 \<Longrightarrow> digit_of (''0123456789'' ! d) = Some d"
proof -
  assume "d < 10"
  then have "d = 0 \<or> d = 1 \<or> d = 2 \<or> d = 3 \<or> d = 4 \<or> d = 5 \<or> d = 6 \<or> d = 7 \<or> d = 8 \<or> d = 9"
    by arith
  then show ?thesis by (elim disjE) (simp_all add: digit_of_def)
qed

lemma zero_digit: "d < 10 \<Longrightarrow> (''0123456789'' ! d = CHR ''0'') = (d = 0)"
proof -
  assume "d < 10"
  then have "d = 0 \<or> d = 1 \<or> d = 2 \<or> d = 3 \<or> d = 4 \<or> d = 5 \<or> d = 6 \<or> d = 7 \<or> d = 8 \<or> d = 9"
    by arith
  then show ?thesis by (elim disjE) simp_all
qed

lemma read_nat_append:
  "read_nat acc (xs @ ys) = (case read_nat acc xs of None \<Rightarrow> None | Some a \<Rightarrow> read_nat a ys)"
  by (induction xs arbitrary: acc) (auto split: option.splits)

lemma read_nat_str_nat: "read_nat 0 (str_nat n) = Some n"
proof (induction n rule: str_nat.induct)
  case (1 n)
  show ?case
  proof (cases "n < 10")
    case True
    then show ?thesis by (subst str_nat.simps) (simp add: digit_of_digits)
  next
    case False
    have d: "digit_of (''0123456789'' ! (n mod 10)) = Some (n mod 10)"
      by (rule digit_of_digits) simp
    from False "1.IH" have "read_nat 0 (str_nat (n div 10)) = Some (n div 10)" by simp
    with False d show ?thesis
      by (subst str_nat.simps) (simp add: read_nat_append)
  qed
qed

lemma str_nat_head:
  "str_nat n \<noteq> [] \<and> digit_of (hd (str_nat n)) \<noteq> None \<and> (hd (str_nat n) = CHR ''0'') = (n = 0)"
proof (induction n rule: str_nat.induct)
  case (1 n)
  show ?case
  proof (cases "n < 10")
    case True
    then show ?thesis
      by (subst (1 2 3) str_nat.simps) (simp add: digit_of_digits zero_digit)
  next
    case False
    with "1.IH" have ih: "str_nat (n div 10) \<noteq> []"
      "digit_of (hd (str_nat (n div 10))) \<noteq> None"
      "(hd (str_nat (n div 10)) = CHR ''0'') = (n div 10 = 0)" by simp_all
    from False have nz: "n div 10 \<noteq> 0" "n \<noteq> 0" by simp_all
    have e: "str_nat n = str_nat (n div 10) @ [''0123456789'' ! (n mod 10)]"
      using False by (subst str_nat.simps) simp
    from ih nz show ?thesis unfolding e by simp
  qed
qed

lemma read_int_py_str: "read_int (py_str i) = Some i"
proof (cases "i < 0")
  case True
  from str_nat_head [of "nat (- i)"] have "str_nat (nat (- i)) \<noteq> []" by simp
  with True show ?thesis
    by (simp add: py_str_def read_int_def read_nat_str_nat)
next
  case False
  from str_nat_head [of "nat i"] obtain c cs where s: "str_nat (nat i) = c # cs"
    and c: "digit_of c \<noteq> None"
    by (cases "str_nat (nat i)") auto
  from c have "c \<noteq> CHR ''-''" by (auto simp: digit_of_def)
  with False s read_nat_str_nat [of "nat i"] show ?thesis
    by (simp add: py_str_def read_int_def)
qed

lemma py_str_leading:
  "(i < 0 \<longrightarrow> py_str i = ''-'' @ py_str (- i)) \<and>
   (0 \<le> i \<longrightarrow> py_str i \<noteq> [] \<and> (hd (py_str i) = CHR ''0'') = (i = 0))"
  using str_nat_head [of "nat i"] by (auto simp: py_str_def)

lemma config_path_frame [simp]:
  "config_path (add_event ev s) name = config_path s name"
  "config_path (notification_create msg ttl nid s) name = config_path s name"
  by (simp_all add: config_path_def add_event_def notification_create_def)

lemma trace_frame [simp]:
  "trace (add_event ev s) = trace s @ [ev]"
  "trace (notification_create msg ttl nid s) = trace s"
  by (simp_all add: add_event_def notification_create_def)

lemma cpu_files:
  assumes "fst (async_generate_profile env data s) = None"
  shows "\<exists>secs. sleep_seconds env data = Inr secs \<and>
     trace (snd (async_generate_profile env data s)) =
       trace s @
         [ProfilerEnable, Sleep secs, ProfilerDisable,
          DumpStats (config_path s (''profile.'' @ py_str (py_int (time_us env)) @ ''.cprof'')),
          Convert (config_path s (''callgrind.out.'' @ py_str (py_int (time_us env))))]"
proof (cases "sleep_seconds env data")
  case (Inl e)
  with assms show ?thesis
    by (simp add: async_generate_profile_def generate_profile_begin_def Let_def)
next
  case (Inr secs)
  let ?cprof = "config_path s (''profile.'' @ py_str (py_int (time_us env)) @ ''.cprof'')"
  let ?callgrind = "config_path s (''callgrind.out.'' @ py_str (py_int (time_us env)))"
  from assms Inr have w1: "write_error env ?cprof = None"
    by (cases "write_error env ?cprof")
      (simp_all add: async_generate_profile_def generate_profile_begin_def Let_def
        generate_profile_after_sleep_def generate_profile_finish_def write_profile_def
        cprofile_path_def callgrind_path_def)
  from assms Inr w1 have w2: "write_error env ?callgrind = None"
    by (cases "write_error env ?callgrind")
      (simp_all add: async_generate_profile_def generate_profile_begin_def Let_def
        generate_profile_after_sleep_def generate_profile_finish_def write_profile_def
        cprofile_path_def callgrind_path_def)
  from Inr w1 w2 show ?thesis
    by (simp add: async_generate_profile_def generate_profile_begin_def Let_def
        generate_profile_after_sleep_def generate_profile_finish_def write_profile_def
        cprofile_path_def callgrind_path_def)
qed

lemma memory_files:
  assumes "fst (async_generate_memory_profile env data s) = None"
  shows "\<exists>secs. sleep_seconds env data = Inr secs \<and>
     trace (snd (async_generate_memory_profile env data s)) =
       trace s @
         [HpyCreate, HpySetref, Sleep secs, HpyHeap,
          HeapDump (config_path s (''heap_profile.'' @ py_str (py_int (time_us env)) @ ''.hpy''))]"
proof -
  let ?heap = "config_path s (''heap_profile.'' @ py_str (py_int (time_us env)) @ ''.hpy'')"
  from assms have v: "\<not> version_ge_3_11 (sys_version_info env)"
    by (auto simp: async_generate_memory_profile_def generate_memory_profile_begin_def)
  from assms v have g: "guppy_import_error env = None"
    by (cases "guppy_import_error env")
      (simp_all add: async_generate_memory_profile_def generate_memory_profile_begin_def)
  from assms v g obtain secs where sl: "sleep_seconds env data = Inr secs"
    by (cases "sleep_seconds env data")
      (simp_all add: async_generate_memory_profile_def generate_memory_profile_begin_def Let_def)
  from assms v g sl have w: "write_error env ?heap = None"
    by (cases "write_error env ?heap")
      (simp_all add: async_generate_memory_profile_def generate_memory_profile_begin_def Let_def
        generate_memory_profile_after_sleep_def generate_memory_profile_finish_def
        write_memory_profile_def heap_path_def)
  from v g sl w show ?thesis
    by (simp add: async_generate_memory_profile_def generate_memory_profile_begin_def Let_def
        generate_memory_profile_after_sleep_def generate_memory_profile_finish_def
        write_memory_profile_def heap_path_def)
qed

text \<open>
  Claim C9, as it holds. A CPU-profile action that returns has enabled the profiler,
  slept, disabled the profiler and written exactly two files, first
  \<^verbatim>\<open>profile.<start_time>.cprof\<close> and then \<^verbatim>\<open>callgrind.out.<start_time>\<close>; a
  memory-profile action that returns has written exactly one,
  \<^verbatim>\<open>heap_profile.<start_time>.hpy\<close>. Each name is joined to the host's configuration
  directory, with a slash in between unless the directory is empty or ends in one.
  \<open>start_time\<close> is \<^verbatim>\<open>int(time.time() * 1000000)\<close>, taken at the start of the action
  and written as its decimal numeral: a minus sign for a negative number, then digits
  without a leading zero, which read back give the number. \<^verbatim>\<open>int\<close> truncates toward
  zero: the result is the integer no larger in magnitude than the product and less than
  one away from it, which is the floor of the product when the clock is not before the
  epoch.
\<close>

theorem output_file_names:
  "(fst (async_generate_profile env data s) = None \<longrightarrow>
      (\<exists>secs. sleep_seconds env data = Inr secs \<and>
         trace (snd (async_generate_profile env data s)) =
           trace s @
             [ProfilerEnable, Sleep secs, ProfilerDisable,
              DumpStats
                (config_dir s
                   @ (if config_dir s = [] \<or> last (config_dir s) = CHR ''/'' then [] else ''/'')
                   @ ''profile.'' @ py_str (py_int (time_us env)) @ ''.cprof''),
              Convert
                (config_dir s
                   @ (if config_dir s = [] \<or> last (config_dir s) = CHR ''/'' then [] else ''/'')
                   @ ''callgrind.out.'' @ py_str (py_int (time_us env)))])) \<and>
   (fst (async_generate_memory_profile env data s) = None \<longrightarrow>
      (\<exists>secs. sleep_seconds env data = Inr secs \<and>
         trace (snd (async_generate_memory_profile env data s)) =
           trace s @
             [HpyCreate, HpySetref, Sleep secs, HpyHeap,
              HeapDump
                (config_dir s
                   @ (if config_dir s = [] \<or> last (config_dir s) = CHR ''/'' then [] else ''/'')
                   @ ''heap_profile.'' @ py_str (py_int (time_us env)) @ ''.hpy'')])) \<and>
   read_int (py_str i) = Some i \<and>
   (i < 0 \<longrightarrow> py_str i = ''-'' @ py_str (- i)) \<and>
   (0 \<le> i \<longrightarrow> py_str i \<noteq> [] \<and> (hd (py_str i) = CHR ''0'') = (i = 0)) \<and>
   \<bar>real_of_int (py_int x)\<bar> \<le> \<bar>x\<bar> \<and>
   \<bar>x - real_of_int (py_int x)\<bar> < 1 \<and>
   (0 \<le> x \<longrightarrow> py_int x = \<lfloor>x\<rfloor>)"
proof -
  have p: "config_path s (CHR ''p'' # rest) =
      config_dir s @ (if config_dir s = [] \<or> last (config_dir s) = CHR ''/'' then [] else ''/'')
        @ CHR ''p'' # rest" for rest
    by (simp add: config_path_def)
  have c: "config_path s (CHR ''c'' # rest) =
      config_dir s @ (if config_dir s = [] \<or> last (config_dir s) = CHR ''/'' then [] else ''/'')
        @ CHR ''c'' # rest" for rest
    by (simp add: config_path_def)
  have h: "config_path s (CHR ''h'' # rest) =
      config_dir s @ (if config_dir s = [] \<or> last (config_dir s) = CHR ''/'' then [] else ''/'')
        @ CHR ''h'' # rest" for rest
    by (simp add: config_path_def)
  have a: "fst (async_generate_profile env data s) = None \<longrightarrow>
      (\<exists>secs. sleep_seconds env data = Inr secs \<and>
         trace (snd (async_generate_profile env data s)) =
           trace s @
             [ProfilerEnable, Sleep secs, ProfilerDisable,
              DumpStats
                (config_dir s
                   @ (if config_dir s = [] \<or> last (config_dir s) = CHR ''/'' then [] else ''/'')
                   @ ''profile.'' @ py_str (py_int (time_us env)) @ ''.cprof''),
              Convert
                (config_dir s
                   @ (if config_dir s = [] \<or> last (config_dir s) = CHR ''/'' then [] else ''/'')
                   @ ''callgrind.out.'' @ py_str (py_int (time_us env)))])"
    using cpu_files [of env data s] by (simp add: p c)
  have b: "fst (async_generate_memory_profile env data s) = None \<longrightarrow>
      (\<exists>secs. sleep_seconds env data = Inr secs \<and>
         trace (snd (async_generate_memory_profile env data s)) =
           trace s @
             [HpyCreate, HpySetref, Sleep secs, HpyHeap,
              HeapDump
                (config_dir s
                   @ (if config_dir s = [] \<or> last (config_dir s) = CHR ''/'' then [] else ''/'')
                   @ ''heap_profile.'' @ py_str (py_int (time_us env)) @ ''.hpy'')])"
    using memory_files [of env data s] by (simp add: h)
  from a b read_int_py_str [of i] py_str_leading [of i] py_int_truncates [of x]
    py_int_floor [of x]
  show ?thesis by blast
qed

theorem output_file_names_witness:
  "(let env = \<lparr>time_us = 1700000000123456.75,
             sys_version_info =
               \<lparr>major = 3, minor = 10, micro = 0, releaselevel = ''final'', serial = 0\<rparr>,
             float_fn = \<lparr>float_of_int = (\<lambda>i. None), float_of_str = (\<lambda>t. None)\<rparr>,
             guppy_import_error = None, write_error = (\<lambda>p. None)\<rparr>;
        data = [CONF_SECONDS \<mapsto> VFloat (Finite 60)]
    in trace (snd (async_generate_profile env data (fresh_hass ''/config''))) =
         [ProfilerEnable, Sleep (Finite 60), ProfilerDisable,
          DumpStats ''/config/profile.1700000000123456.cprof'',
          Convert ''/config/callgrind.out.1700000000123456''] \<and>
       trace (snd (async_generate_memory_profile env data (fresh_hass ''/config''))) =
         [HpyCreate, HpySetref, Sleep (Finite 60), HpyHeap,
          HeapDump ''/config/heap_profile.1700000000123456.hpy''] \<and>
       read_int ''1700000000123456'' = Some 1700000000123456)"
proof -
  define env where "env = \<lparr>time_us = 1700000000123456.75,
             sys_version_info =
               \<lparr>major = 3, minor = 10, micro = 0, releaselevel = ''final'', serial = 0\<rparr>,
             float_fn = \<lparr>float_of_int = (\<lambda>i. None), float_of_str = (\<lambda>t. None)\<rparr>,
             guppy_import_error = None, write_error = (\<lambda>p::string. None::string option)\<rparr>"
  define data where "data = [CONF_SECONDS \<mapsto> VFloat (Finite 60)]"
  have t: "py_int (time_us env) = 1700000000123456"
    by (simp add: env_def py_int_def)
  have n: "py_str 1700000000123456 = ''1700000000123456''"
    by (simp add: py_str_def str_nat.simps)
  have sl: "sleep_seconds env data = Inr (Finite 60)"
    by (simp add: env_def data_def sleep_seconds_def py_float_def)
  have a: "fst (async_generate_profile env data (fresh_hass ''/config'')) = None"
    by (simp add: env_def data_def profile_defs sleep_seconds_def py_float_def Let_def
        cprofile_path_def callgrind_path_def)
  have b: "fst (async_generate_memory_profile env data (fresh_hass ''/config'')) = None"
    by (simp add: env_def data_def profile_defs sleep_seconds_def py_float_def Let_def
        version_ge_3_11_def heap_path_def)
  note th = output_file_names [of env data "fresh_hass ''/config''" 1700000000123456]
  from th a sl t n
  have c: "trace (snd (async_generate_profile env data (fresh_hass ''/config''))) =
         [ProfilerEnable, Sleep (Finite 60), ProfilerDisable,
          DumpStats ''/config/profile.1700000000123456.cprof'',
          Convert ''/config/callgrind.out.1700000000123456'']"
    by (simp add: fresh_hass_def)
  from th b sl t n
  have d: "trace (snd (async_generate_memory_profile env data (fresh_hass ''/config''))) =
         [HpyCreate, HpySetref, Sleep (Finite 60), HpyHeap,
          HeapDump ''/config/heap_profile.1700000000123456.hpy'']"
    by (simp add: fresh_hass_def)
  from th n have e: "read_int ''1700000000123456'' = Some 1700000000123456" by simp
  from c d e show ?thesis
    unfolding Let_def env_def data_def by (intro conjI)
qed

text \<open>
  Claim C9, as stated, fails in one point: \<open>start_time\<close> is not the floor of the
  product when the clock is before the epoch. With the clock one and a half seconds and
  half a microsecond before it, the product is -1500000.5, its floor is -1500001, and
  the files are named with -1500000.
\<close>

theorem start_time_is_not_the_floor:
  "(let env = \<lparr>time_us = - 1500000.5,
             sys_version_info =
               \<lparr>major = 3, minor = 10, micro = 0, releaselevel = ''final'', serial = 0\<rparr>,
             float_fn = \<lparr>float_of_int = (\<lambda>i. None), float_of_str = (\<lambda>t. None)\<rparr>,
             guppy_import_error = None, write_error = (\<lambda>p. None)\<rparr>;
        data = [CONF_SECONDS \<mapsto> VFloat (Finite 60)]
    in trace (snd (async_generate_profile env data (fresh_hass ''/config''))) =
         [ProfilerEnable, Sleep (Finite 60), ProfilerDisable,
          DumpStats ''/config/profile.-1500000.cprof'',
          Convert ''/config/callgrind.out.-1500000''] \<and>
       \<lfloor>time_us env\<rfloor> = - 1500001)"
proof -
  define env where "env = \<lparr>time_us = - 1500000.5,
             sys_version_info =
               \<lparr>major = 3, minor = 10, micro = 0, releaselevel = ''final'', serial = 0\<rparr>,
             float_fn = \<lparr>float_of_int = (\<lambda>i. None), float_of_str = (\<lambda>t. None)\<rparr>,
             guppy_import_error = None, write_error = (\<lambda>p::string. None::string option)\<rparr>"
  define data where "data = [CONF_SECONDS \<mapsto> VFloat (Finite 60)]"
  have f: "\<lfloor>time_us env\<rfloor> = - 1500001"
    by (simp add: env_def)
  have t: "py_int (time_us env) = - 1500000"
    by (simp add: env_def py_int_def)
  have n: "py_str (- 1500000) = ''-1500000''"
    by (simp add: py_str_def str_nat.simps)
  have "trace (snd (async_generate_profile env data (fresh_hass ''/config''))) =
         [ProfilerEnable, Sleep (Finite 60), ProfilerDisable,
          DumpStats (config_path (fresh_hass ''/config'') (''profile.'' @ py_str (- 1500000) @ ''.cprof'')),
          Convert (config_path (fresh_hass ''/config'') (''callgrind.out.'' @ py_str (- 1500000)))]"
    by (simp add: t profile_defs sleep_seconds_def py_float_def Let_def cprofile_path_def
        callgrind_path_def env_def [symmetric] data_def)
      (simp add: env_def fresh_hass_def)
  then have c: "trace (snd (async_generate_profile env data (fresh_hass ''/config''))) =
         [ProfilerEnable, Sleep (Finite 60), ProfilerDisable,
          DumpStats ''/config/profile.-1500000.cprof'',
          Convert ''/config/callgrind.out.-1500000'']"
    by (simp add: n config_path_def fresh_hass_def)
  from c f show ?thesis
    unfolding Let_def env_def data_def by (intro conjI)
qed

subsection \<open>The duration parameter\<close>

lemma Coerce_float_Inr:
  "(Coerce_float fb v = Inr w) = (\<exists>f. py_float fb v = Inr f \<and> w = VFloat f)"
  by (cases "py_float fb v") (auto simp: Coerce_float_def)

text \<open>
  Claim C8, as it holds. The schema of the two profile actions turns \<^verbatim>\<open>seconds\<close>
  into a float: when the parameter is omitted the value is 60.0; a float is accepted as
  it is, whatever its sign; and in general the data is accepted exactly when it has no
  other key and \<^verbatim>\<open>float\<close> converts the value, the accepted value being the result
  of the conversion. The handler then sleeps for exactly that value. The schema has no
  test of the sign.
\<close>

theorem seconds_schema_coerces:
  "seconds_schema fb Map.empty = Inr [CONF_SECONDS \<mapsto> VFloat (Finite 60)] \<and>
   seconds_schema fb [CONF_SECONDS \<mapsto> VFloat f] = Inr [CONF_SECONDS \<mapsto> VFloat f] \<and>
   (seconds_schema fb data = Inr out) =
     (dom data \<subseteq> {CONF_SECONDS} \<and>
      (\<exists>x. py_float fb (case data CONF_SECONDS of None \<Rightarrow> VFloat (Finite 60) | Some v \<Rightarrow> v) = Inr x \<and>
           out = [CONF_SECONDS \<mapsto> VFloat x])) \<and>
   (seconds_schema fb data = Inr out \<longrightarrow>
      (\<exists>x. out CONF_SECONDS = Some (VFloat x) \<and>
           sleep_seconds (env\<lparr>float_fn := fb\<rparr>) out = Inr x))"
proof -
  have a: "seconds_schema fb Map.empty = Inr [CONF_SECONDS \<mapsto> VFloat (Finite 60)]"
    by (simp add: seconds_schema_def Coerce_float_def py_float_def)
  have b: "seconds_schema fb [CONF_SECONDS \<mapsto> VFloat f] = Inr [CONF_SECONDS \<mapsto> VFloat f]"
    by (simp add: seconds_schema_def Coerce_float_def py_float_def)
  have c: "(seconds_schema fb data = Inr out) =
     (dom data \<subseteq> {CONF_SECONDS} \<and>
      (\<exists>x. py_float fb (case data CONF_SECONDS of None \<Rightarrow> VFloat (Finite 60) | Some v \<Rightarrow> v) = Inr x \<and>
           out = [CONF_SECONDS \<mapsto> VFloat x]))"
  proof (cases "py_float fb (case data CONF_SECONDS of None \<Rightarrow> VFloat (Finite 60) | Some v \<Rightarrow> v)")
    case (Inl e)
    then show ?thesis by (simp add: seconds_schema_def Coerce_float_def)
  next
    case (Inr x)
    then show ?thesis by (auto simp: seconds_schema_def Coerce_float_def)
  qed
  have d: "seconds_schema fb data = Inr out \<longrightarrow>
      (\<exists>x. out CONF_SECONDS = Some (VFloat x) \<and>
           sleep_seconds (env\<lparr>float_fn := fb\<rparr>) out = Inr x)"
  proof
    assume "seconds_schema fb data = Inr out"
    with c obtain x where "out = [CONF_SECONDS \<mapsto> VFloat x]" by blast
    then show "\<exists>x. out CONF_SECONDS = Some (VFloat x) \<and>
           sleep_seconds (env\<lparr>float_fn := fb\<rparr>) out = Inr x"
      by (simp add: sleep_seconds_def py_float_def)
  qed
  show ?thesis
    apply (intro conjI)
       apply (rule a)
      apply (rule b)
     apply (rule c)
    apply (rule d)
    done
qed



theorem seconds_schema_coerces_witness:
  "seconds_schema \<lparr>float_of_int = (\<lambda>i. None), float_of_str = (\<lambda>t. None)\<rparr>
       [CONF_SECONDS \<mapsto> VFloat (Finite 0)]
     = Inr [CONF_SECONDS \<mapsto> VFloat (Finite 0)] \<and>
   seconds_schema \<lparr>float_of_int = (\<lambda>i. None), float_of_str = (\<lambda>t. None)\<rparr> Map.empty
     = Inr [CONF_SECONDS \<mapsto> VFloat (Finite 60)] \<and>
   sleep_seconds
     \<lparr>time_us = 0,
      sys_version_info = \<lparr>major = 3, minor = 10, micro = 0, releaselevel = ''final'', serial = 0\<rparr>,
      float_fn = \<lparr>float_of_int = (\<lambda>i. None), float_of_str = (\<lambda>t. None)\<rparr>,
      guppy_import_error = None, write_error = (\<lambda>p. None)\<rparr>
     [CONF_SECONDS \<mapsto> VFloat (Finite 0)] = Inr (Finite 0)"
proof -
  let ?fb = "\<lparr>float_of_int = (\<lambda>i. None), float_of_str = (\<lambda>t. None)\<rparr>"
  let ?env = "\<lparr>time_us = 0,
      sys_version_info = \<lparr>major = 3, minor = 10, micro = 0, releaselevel = ''final'', serial = 0\<rparr>,
      float_fn = ?fb, guppy_import_error = None, write_error = (\<lambda>p. None)\<rparr>"
  let ?d = "[CONF_SECONDS \<mapsto> VFloat (Finite 0)]"
  note th = seconds_schema_coerces [of ?fb "Finite 0" ?d ?d ?env]
  from th have a: "seconds_schema ?fb ?d = Inr ?d" by (elim conjE)
  from th have b: "seconds_schema ?fb Map.empty = Inr [CONF_SECONDS \<mapsto> VFloat (Finite 60)]"
    by (elim conjE)
  from th a obtain x where x: "?d CONF_SECONDS = Some (VFloat x)"
      "sleep_seconds (?env\<lparr>float_fn := ?fb\<rparr>) ?d = Inr x"
    by (elim conjE impE exE)
  from x(1) have "x = Finite 0" by simp
  with x(2) have c: "sleep_seconds ?env ?d = Inr (Finite 0)" by simp
  from a b c show ?thesis by (intro conjI)
qed

text \<open>
  Claim C8, as stated, fails: \<^verbatim>\<open>seconds = -5.0\<close> passes the schema unchanged, and
  it is not positive.
\<close>

theorem seconds_schema_accepts_nonpositive:
  "seconds_schema \<lparr>float_of_int = (\<lambda>i. None), float_of_str = (\<lambda>t. None)\<rparr>
       [CONF_SECONDS \<mapsto> VFloat (Finite (- 5))]
     = Inr [CONF_SECONDS \<mapsto> VFloat (Finite (- 5))] \<and>
   \<not> is_positive (Finite (- 5))"
  by (simp add: seconds_schema_def Coerce_float_def py_float_def)

subsection \<open>The two profile actions under the lock\<close>



lemma bodies_under_frame [simp]:
  "bodies_under (sys\<lparr>host := h\<rparr>) k = bodies_under sys k"
  "bodies_under (set_lock j b sys) k = bodies_under sys k"
  "bodies_under (sys\<lparr>registered := r\<rparr>) k = bodies_under sys k"
  "bodies_under (sys\<lparr>locks := ls\<rparr>) k = bodies_under sys k"
  by (simp_all add: bodies_under_def set_lock_def)

lemma lock_held_frame [simp]:
  "lock_held (set_pc i p sys) k = lock_held sys k"
  "lock_held (sys\<lparr>host := h\<rparr>) k = lock_held sys k"
  "lock_held (sys\<lparr>registered := r\<rparr>) k = lock_held sys k"
  "lock_held (sys\<lparr>tasks := ts\<rparr>) k = lock_held sys k"
  by (simp_all add: lock_held_def set_pc_def)


lemma set_pc_frame [simp]:
  "locks (set_pc i p sys) = locks sys"
  "registered (set_pc i p sys) = registered sys"
  "host (set_pc i p sys) = host sys"
  "length (tasks (set_pc i p sys)) = length (tasks sys)"
  by (simp_all add: set_pc_def)

lemma set_lock_frame [simp]:
  "tasks (set_lock j b sys) = tasks sys"
  "registered (set_lock j b sys) = registered sys"
  "host (set_lock j b sys) = host sys"
  "length (locks (set_lock j b sys)) = length (locks sys)"
  by (simp_all add: set_lock_def)

lemma set_pc_nth [simp]:
  "i < length (tasks sys) \<Longrightarrow> task_pc (tasks (set_pc i p sys) ! i) = p"
  "i < length (tasks sys) \<Longrightarrow> task_lock (tasks (set_pc i p sys) ! i) = task_lock (tasks sys ! i)"
  by (simp_all add: set_pc_def)









lemma filter_append_one:
  "length (filter P (xs @ [x])) = length (filter P xs) + (if P x then 1 else 0)"
  by simp





lemma step_keeps_lock_of:
  "i < length (tasks sys) \<Longrightarrow> task_lock (tasks (step i sys) ! i) = task_lock (tasks sys ! i)"
  by (auto simp: step_def acquire_and_begin_def Let_def set_pc_def set_lock_def
      split: pc.splits prod.splits sum.splits)







end
